theory Spec2Isabelle
  imports Complex_Main "HOL-Library.Sublist"
begin

section \<open>Entity model (backend/models.py)\<close>

text \<open>
  The enumerations of models.py. Each member carries a string value (the classes derive
  from \<open>str\<close>), which is what appears in dumps and in the summary's frequency maps.
\<close>

datatype Priority = P1 | P2 | P3

datatype TaskStatus = NOT_STARTED | IN_PROGRESS | COMPLETED | BLOCKED | CANCELLED

datatype TimeBlock = MORNING | AFTERNOON | EVENING

datatype Category = DEVELOPMENT | DESIGN | ADMIN | LEARNING | PERSONAL | MEETING | PLANNING

fun Priority_value :: "Priority \<Rightarrow> string" where
  "Priority_value P1 = ''P1''"
| "Priority_value P2 = ''P2''"
| "Priority_value P3 = ''P3''"

fun TaskStatus_value :: "TaskStatus \<Rightarrow> string" where
  "TaskStatus_value NOT_STARTED = ''not_started''"
| "TaskStatus_value IN_PROGRESS = ''in_progress''"
| "TaskStatus_value COMPLETED = ''completed''"
| "TaskStatus_value BLOCKED = ''blocked''"
| "TaskStatus_value CANCELLED = ''cancelled''"

fun TimeBlock_value :: "TimeBlock \<Rightarrow> string" where
  "TimeBlock_value MORNING = ''morning''"
| "TimeBlock_value AFTERNOON = ''afternoon''"
| "TimeBlock_value EVENING = ''evening''"

fun Category_value :: "Category \<Rightarrow> string" where
  "Category_value DEVELOPMENT = ''development''"
| "Category_value DESIGN = ''design''"
| "Category_value ADMIN = ''admin''"
| "Category_value LEARNING = ''learning''"
| "Category_value PERSONAL = ''personal''"
| "Category_value MEETING = ''meeting''"
| "Category_value PLANNING = ''planning''"

text \<open>
  Subtask and Task. Field names follow the source; \<open>id\<close>, \<open>title\<close>, \<open>completed\<close>, \<open>notes\<close> of the
  subtask carry the suffix \<open>_sub\<close>, the task's \<open>id\<close> and \<open>notes\<close> the suffix \<open>_task\<close>: a record
  field is a constant of the theory and \<open>notes\<close> is a keyword. Python's unbounded \<open>int\<close> is \<open>int\<close>; \<open>Optional\<close> is
  \<open>option\<close>. Timestamps are the ISO strings the source stores.
\<close>

record Subtask =
  id_sub :: string
  title_sub :: string
  completed_sub :: bool
  notes_sub :: "string option"

record Task =
  id_task :: string
  title :: string
  description :: string
  priority :: Priority
  status :: TaskStatus
  progress :: int
  category :: Category
  estimated_minutes :: int
  actual_minutes :: int
  time_block :: "TimeBlock option"
  subtasks :: "Subtask list"
  notes_task :: "string list"
  success_criteria :: "string option"
  dependencies :: "string list"
  tags :: "string list"
  created_at :: string
  updated_at :: string
  completed_at :: "string option"

section \<open>Binary floating point, as far as the source uses it\<close>

text \<open>
  Two expressions of models.py compute in Python floats (IEEE 754 binary64):
  \<open>int((completed / total) * 100)\<close> and \<open>round((completed / len(tasks)) * 100, 1)\<close>.
  A float is modelled by its integer significand and its exponent: \<open>Float m e\<close> denotes
  \<open>m \<cdot> 2\<^sup>e\<close>. Every operation returns the binary64 representation: zero is \<open>Float 0 0\<close>,
  a normal number has \<open>2\<^sup>5\<^sup>2 \<le> \<bar>m\<bar> < 2\<^sup>5\<^sup>3\<close>, a subnormal one has \<open>e = -1074\<close>; so two
  results are equal as Python floats exactly when they are equal here. Each operation
  rounds the exact result to the nearest representable value, ties to the even
  significand. Overflow to infinity is not modelled: the operands of the source are
  counts \<open>c \<le> t\<close> and the constant 100, and every result lies in \<open>[0, 100]\<close>.
\<close>

datatype pyfloat = Float (mantissa: int) (exponent: int)

definition float_val :: "pyfloat \<Rightarrow> rat" where
  "float_val f =
     (if 0 \<le> exponent f then of_int (mantissa f) * 2 ^ nat (exponent f)
      else of_int (mantissa f) / 2 ^ nat (- exponent f))"

definition fneg :: "pyfloat \<Rightarrow> pyfloat" where
  "fneg f = Float (- mantissa f) (exponent f)"

fun bitlen_nat :: "nat \<Rightarrow> nat" where
  "bitlen_nat n = (if n = 0 then 0 else Suc (bitlen_nat (n div 2)))"

declare bitlen_nat.simps [simp del]

definition rhe_div :: "nat \<Rightarrow> nat \<Rightarrow> nat" where
  \<comment> \<open>the integer nearest to \<open>n / d\<close>, ties to the even one\<close>
  "rhe_div n d =
     (let q = n div d; r = n mod d
      in if 2 * r < d then q
         else if d < 2 * r then q + 1
         else if even q then q else q + 1)"

definition float_of_ratio :: "nat \<Rightarrow> nat \<Rightarrow> pyfloat" where
  \<comment> \<open>the float nearest to \<open>a / b\<close>, for \<open>b > 0\<close>: \<open>e\<close> is \<open>\<lfloor>log\<^sub>2 (a / b)\<rfloor>\<close> and \<open>x\<close> the
     exponent of the unit in the last place\<close>
  "float_of_ratio a b =
     (if a = 0 then Float 0 0
      else
        let k = int (bitlen_nat a) - int (bitlen_nat b);
            e = (if (if 0 \<le> k then b * 2 ^ nat k \<le> a else b \<le> a * 2 ^ nat (- k))
                 then k else k - 1);
            x = max (e - 52) (- 1074);
            m = (if x \<le> 0 then rhe_div (a * 2 ^ nat (- x)) b
                 else rhe_div a (b * 2 ^ nat x))
        in if m = 0 then Float 0 0
           else if m = 2 ^ 53 then Float (2 ^ 52) (x + 1)
           else Float (int m) x)"

definition float_div :: "nat \<Rightarrow> nat \<Rightarrow> pyfloat" where
  \<comment> \<open>Python's \<open>a / b\<close> on two non-negative ints, \<open>b \<noteq> 0\<close>: the correctly rounded
     quotient. (The callers exclude \<open>b = 0\<close>, where Python raises.)\<close>
  "float_div a b = float_of_ratio a b"

definition float_mul :: "pyfloat \<Rightarrow> pyfloat \<Rightarrow> pyfloat" where
  "float_mul f g =
     (let M = mantissa f * mantissa g; E = exponent f + exponent g;
          r = (if 0 \<le> E then float_of_ratio (nat \<bar>M\<bar> * 2 ^ nat E) 1
               else float_of_ratio (nat \<bar>M\<bar>) (2 ^ nat (- E)))
      in if M < 0 then fneg r else r)"

definition float_100 :: pyfloat where
  \<comment> \<open>the int literal \<open>100\<close> converted to a float\<close>
  "float_100 = float_of_ratio 100 1"

definition py_int :: "pyfloat \<Rightarrow> int" where
  \<comment> \<open>\<open>int(x)\<close> on a float: truncation towards zero\<close>
  "py_int f =
     (let n = (if 0 \<le> exponent f then nat \<bar>mantissa f\<bar> * 2 ^ nat (exponent f)
               else nat \<bar>mantissa f\<bar> div 2 ^ nat (- exponent f))
      in if mantissa f < 0 then - int n else int n)"

definition py_round1 :: "pyfloat \<Rightarrow> pyfloat" where
  \<comment> \<open>\<open>round(x, 1)\<close> on a float: the decimal \<open>N / 10\<close> nearest to the exact value of \<open>x\<close>
     (ties to the even digit), converted back to the nearest float\<close>
  "py_round1 f =
     (let N = (if 0 \<le> exponent f then 10 * nat \<bar>mantissa f\<bar> * 2 ^ nat (exponent f)
               else rhe_div (10 * nat \<bar>mantissa f\<bar>) (2 ^ nat (- exponent f)));
          r = float_of_ratio N 10
      in if mantissa f < 0 then fneg r else r)"

section \<open>Task operations\<close>

text \<open>
  \<open>datetime.now().isoformat()\<close> is read from the clock at each call; the model takes
  the strings read as arguments, in the order of the calls.
\<close>

definition mark_completed :: "string \<Rightarrow> string \<Rightarrow> Task \<Rightarrow> Task" where
  "mark_completed now_c now_u t =
     t\<lparr>status := COMPLETED, progress := 100,
       completed_at := Some now_c, updated_at := now_u\<rparr>"

definition count_completed :: "Subtask list \<Rightarrow> nat" where
  "count_completed sts = length (filter completed_sub sts)"

definition update_progress_from_subtasks :: "string \<Rightarrow> string \<Rightarrow> Task \<Rightarrow> Task" where
  "update_progress_from_subtasks now_c now_u t =
     (if subtasks t = [] then t
      else
        let completed = count_completed (subtasks t);
            total = length (subtasks t);
            t' = t\<lparr>progress := py_int (float_mul (float_div completed total) float_100)\<rparr>
        in if completed = total \<and> status t' \<noteq> COMPLETED
           then mark_completed now_c now_u t' else t')"

text \<open>
  The \<open>for\<close> loop of \<open>complete_subtask\<close> stops at the first subtask with the id:
  \<open>mark_first\<close> returns the list with that subtask completed, or \<open>None\<close> when the
  loop runs to its end.
\<close>

fun mark_first :: "string \<Rightarrow> Subtask list \<Rightarrow> Subtask list option" where
  "mark_first sid [] = None"
| "mark_first sid (s # ss) =
     (if id_sub s = sid then Some (s\<lparr>completed_sub := True\<rparr> # ss)
      else map_option ((#) s) (mark_first sid ss))"

definition complete_subtask :: "string \<Rightarrow> string \<Rightarrow> string \<Rightarrow> string \<Rightarrow> Task \<Rightarrow> Task \<times> bool" where
  "complete_subtask now0 now_c now_u subtask_id t =
     (case mark_first subtask_id (subtasks t) of
        None \<Rightarrow> (t, False)
      | Some ss \<Rightarrow>
          (update_progress_from_subtasks now_c now_u (t\<lparr>subtasks := ss, updated_at := now0\<rparr>),
           True))"

section \<open>Summary aggregation\<close>

text \<open>
  A Python dict keeps insertion order and has unique keys: an association list, updated
  in place when the key is present and extended at the end otherwise.
  \<open>completion_percentage\<close> is a float.
\<close>

record DaySummary =
  total_tasks :: int
  completed_tasks :: int
  in_progress_tasks :: int
  blocked_tasks :: int
  total_estimated_minutes :: int
  total_actual_minutes :: int
  completion_percentage :: pyfloat
  categories :: "(string \<times> int) list"
  priorities :: "(string \<times> int) list"

definition DaySummary_default :: DaySummary where
  "DaySummary_default =
     \<lparr>total_tasks = 0, completed_tasks = 0, in_progress_tasks = 0, blocked_tasks = 0,
      total_estimated_minutes = 0, total_actual_minutes = 0,
      completion_percentage = Float 0 0,
      categories = [], priorities = []\<rparr>"

fun dict_get :: "(string \<times> int) list \<Rightarrow> string \<Rightarrow> int \<Rightarrow> int" where
  "dict_get [] k d = d"
| "dict_get ((k', v) # kvs) k d = (if k' = k then v else dict_get kvs k d)"

fun dict_set :: "(string \<times> int) list \<Rightarrow> string \<Rightarrow> int \<Rightarrow> (string \<times> int) list" where
  "dict_set [] k v = [(k, v)]"
| "dict_set ((k', v') # kvs) k v =
     (if k' = k then (k, v) # kvs else (k', v') # dict_set kvs k v)"

definition count_key :: "(string \<times> int) list \<Rightarrow> string \<Rightarrow> (string \<times> int) list" where
  \<comment> \<open>\<open>d[k] = d.get(k, 0) + 1\<close>\<close>
  "count_key d k = dict_set d k (dict_get d k 0 + 1)"

definition from_tasks :: "Task list \<Rightarrow> DaySummary" where
  "from_tasks tasks =
     (if tasks = [] then DaySummary_default
      else
        let completed = length (filter (\<lambda>t. status t = COMPLETED) tasks);
            in_progress = length (filter (\<lambda>t. status t = IN_PROGRESS) tasks);
            blocked = length (filter (\<lambda>t. status t = BLOCKED) tasks);
            estimated = sum_list (map estimated_minutes tasks);
            actual = sum_list (map actual_minutes tasks);
            completion = float_mul (float_div completed (length tasks)) float_100;
            cats = fold (\<lambda>task d. count_key d (Category_value (category task))) tasks [];
            pris = fold (\<lambda>task d. count_key d (Priority_value (priority task))) tasks []
        in \<lparr>total_tasks = int (length tasks), completed_tasks = int completed,
            in_progress_tasks = int in_progress, blocked_tasks = int blocked,
            total_estimated_minutes = estimated, total_actual_minutes = actual,
            completion_percentage = py_round1 completion,
            categories = cats, priorities = pris\<rparr>)"

section \<open>DailyTasks\<close>

record DailyTasks =
  date :: string
  tasks :: "Task list"
  summary :: DaySummary

definition update_summary :: "DailyTasks \<Rightarrow> DailyTasks" where
  "update_summary d = d\<lparr>summary := from_tasks (tasks d)\<rparr>"

definition add_task :: "Task \<Rightarrow> DailyTasks \<Rightarrow> DailyTasks" where
  "add_task task d = update_summary (d\<lparr>tasks := tasks d @ [task]\<rparr>)"

definition remove_task :: "string \<Rightarrow> DailyTasks \<Rightarrow> DailyTasks \<times> bool" where
  "remove_task task_id d =
     (let original_length = length (tasks d);
          d' = d\<lparr>tasks := filter (\<lambda>t. id_task t \<noteq> task_id) (tasks d)\<rparr>
      in if length (tasks d') < original_length then (update_summary d', True)
         else (d', False))"

fun get_task :: "string \<Rightarrow> Task list \<Rightarrow> Task option" where
  "get_task task_id [] = None"
| "get_task task_id (t # ts) = (if id_task t = task_id then Some t else get_task task_id ts)"

section \<open>Construction and validation (pydantic)\<close>

text \<open>
  \<open>Task(**data)\<close> builds a task from keyword arguments; pydantic checks each supplied
  value against the \<open>Field\<close> constraints of models.py, applies the class validators to the
  supplied values in field order, fills the fields that are absent with their defaults
  (neither checked nor passed to a validator), and raises one \<open>ValidationError\<close> listing
  every failure. The arguments are a record of optional values, \<open>None\<close> for an absent key.
  Values are typed as the JSON dump types them (an enumeration member by its string
  value); arguments of another Python type are outside the model.
\<close>

datatype loc_item = Key string | Index nat

datatype vkind = missing | string_too_short | string_too_long | greater_than_equal
  | less_than_equal | enum_value | value_error

datatype verror = VError (loc: "loc_item list") (kind: vkind)

record SubtaskData =
  d_id_sub :: "string option"
  d_title_sub :: "string option"
  d_completed_sub :: "bool option"
  d_notes_sub :: "string option option"

record TaskData =
  d_id :: "string option"
  d_title :: "string option"
  d_description :: "string option"
  d_priority :: "string option"
  d_status :: "string option"
  d_progress :: "int option"
  d_category :: "string option"
  d_estimated_minutes :: "int option"
  d_actual_minutes :: "int option"
  d_time_block :: "string option option"
  d_subtasks :: "SubtaskData list option"
  d_notes :: "string list option"
  d_success_criteria :: "string option option"
  d_dependencies :: "string list option"
  d_tags :: "string list option"
  d_created_at :: "string option"
  d_updated_at :: "string option"
  d_completed_at :: "string option option"

record SummaryData =
  d_total_tasks :: "int option"
  d_completed_tasks :: "int option"
  d_in_progress_tasks :: "int option"
  d_blocked_tasks :: "int option"
  d_total_estimated_minutes :: "int option"
  d_total_actual_minutes :: "int option"
  d_completion_percentage :: "pyfloat option"
  d_categories :: "(string \<times> int) list option"
  d_priorities :: "(string \<times> int) list option"

record DailyTasksData =
  d_date :: "string option"
  d_tasks :: "TaskData list option"
  d_summary :: "SummaryData option"

text \<open>
  What the default factories read from their environment: a fresh uuid, the clock for
  \<open>created_at\<close> and \<open>updated_at\<close>, the clock read by the \<open>completed_at\<close> validator, and
  the uuid of the \<open>i\<close>-th subtask.
\<close>

record gen =
  g_id :: string
  g_created :: string
  g_updated :: string
  g_completed :: string
  g_sub_id :: "nat \<Rightarrow> string"

definition errs_of :: "verror list + 'a \<Rightarrow> verror list" where
  "errs_of r = (case r of Inl es \<Rightarrow> es | Inr _ \<Rightarrow> [])"

definition at_loc :: "loc_item list \<Rightarrow> verror list + 'a \<Rightarrow> verror list + 'a" where
  "at_loc l r = (case r of Inl es \<Rightarrow> Inl (map (\<lambda>e. VError (l @ loc e) (kind e)) es) | Inr v \<Rightarrow> Inr v)"

definition check_str :: "string \<Rightarrow> nat \<Rightarrow> nat \<Rightarrow> string \<Rightarrow> verror list + string" where
  \<comment> \<open>\<open>Field(min_length=lo, max_length=hi)\<close>\<close>
  "check_str f lo hi v =
     (if length v < lo then Inl [VError [Key f] string_too_short]
      else if hi < length v then Inl [VError [Key f] string_too_long]
      else Inr v)"

definition check_ge :: "string \<Rightarrow> int \<Rightarrow> int \<Rightarrow> verror list + int" where
  "check_ge f lo v = (if v < lo then Inl [VError [Key f] greater_than_equal] else Inr v)"

definition check_range :: "string \<Rightarrow> int \<Rightarrow> int \<Rightarrow> int \<Rightarrow> verror list + int" where
  \<comment> \<open>\<open>Field(ge=lo, le=hi)\<close>\<close>
  "check_range f lo hi v =
     (if v < lo then Inl [VError [Key f] greater_than_equal]
      else if hi < v then Inl [VError [Key f] less_than_equal]
      else Inr v)"

definition Priority_of :: "string \<Rightarrow> Priority option" where
  "Priority_of v = (if v = ''P1'' then Some P1 else if v = ''P2'' then Some P2
                    else if v = ''P3'' then Some P3 else None)"

definition TaskStatus_of :: "string \<Rightarrow> TaskStatus option" where
  "TaskStatus_of v =
     (if v = ''not_started'' then Some NOT_STARTED
      else if v = ''in_progress'' then Some IN_PROGRESS
      else if v = ''completed'' then Some COMPLETED
      else if v = ''blocked'' then Some BLOCKED
      else if v = ''cancelled'' then Some CANCELLED else None)"

definition TimeBlock_of :: "string \<Rightarrow> TimeBlock option" where
  "TimeBlock_of v =
     (if v = ''morning'' then Some MORNING else if v = ''afternoon'' then Some AFTERNOON
      else if v = ''evening'' then Some EVENING else None)"

definition Category_of :: "string \<Rightarrow> Category option" where
  "Category_of v =
     (if v = ''development'' then Some DEVELOPMENT
      else if v = ''design'' then Some DESIGN
      else if v = ''admin'' then Some ADMIN
      else if v = ''learning'' then Some LEARNING
      else if v = ''personal'' then Some PERSONAL
      else if v = ''meeting'' then Some MEETING
      else if v = ''planning'' then Some PLANNING else None)"

definition check_enum :: "string \<Rightarrow> (string \<Rightarrow> 'a option) \<Rightarrow> string \<Rightarrow> verror list + 'a" where
  "check_enum f of_value v =
     (case of_value v of None \<Rightarrow> Inl [VError [Key f] enum_value] | Some x \<Rightarrow> Inr x)"

definition with_default :: "'a \<Rightarrow> ('b \<Rightarrow> verror list + 'a) \<Rightarrow> 'b option \<Rightarrow> verror list + 'a" where
  \<comment> \<open>an absent key takes the default unchecked; a supplied value is checked\<close>
  "with_default dflt check v = (case v of None \<Rightarrow> Inr dflt | Some x \<Rightarrow> check x)"

definition required :: "string \<Rightarrow> ('b \<Rightarrow> verror list + 'a) \<Rightarrow> 'b option \<Rightarrow> verror list + 'a" where
  "required f check v = (case v of None \<Rightarrow> Inl [VError [Key f] missing] | Some x \<Rightarrow> check x)"

definition Subtask_validate :: "string \<Rightarrow> SubtaskData \<Rightarrow> verror list + Subtask" where
  "Subtask_validate fresh d =
     (let v_id = with_default fresh Inr (d_id_sub d);
          v_title = required ''title'' (check_str ''title'' 1 200) (d_title_sub d);
          v_completed = with_default False Inr (d_completed_sub d);
          v_notes = with_default None Inr (d_notes_sub d);
          errs = errs_of v_id @ errs_of v_title @ errs_of v_completed @ errs_of v_notes
      in if errs \<noteq> [] then Inl errs
         else Inr \<lparr>id_sub = projr v_id, title_sub = projr v_title,
                   completed_sub = projr v_completed, notes_sub = projr v_notes\<rparr>)"

fun validate_list :: "(nat \<Rightarrow> 'b \<Rightarrow> verror list + 'a) \<Rightarrow> nat \<Rightarrow> 'b list \<Rightarrow> verror list + 'a list" where
  "validate_list check i [] = Inr []"
| "validate_list check i (x # xs) =
     (case (at_loc [Index i] (check i x), validate_list check (Suc i) xs) of
        (Inr v, Inr vs) \<Rightarrow> Inr (v # vs)
      | (r, rs) \<Rightarrow> Inl (errs_of r @ errs_of rs))"

definition validate_progress :: "TaskStatus option \<Rightarrow> int \<Rightarrow> int" where
  \<comment> \<open>the \<open>progress\<close> validator; its \<open>values.get('status')\<close> is \<open>None\<close> when the status failed\<close>
  "validate_progress st v =
     (if st = Some COMPLETED \<and> v \<noteq> 100 then 100
      else if st = Some NOT_STARTED \<and> 0 < v then 0
      else v)"

definition set_completed_at :: "string \<Rightarrow> TaskStatus option \<Rightarrow> string option \<Rightarrow> string option" where
  \<comment> \<open>the \<open>completed_at\<close> validator; \<open>not v\<close> holds for \<open>None\<close> and for the empty string\<close>
  "set_completed_at now st v =
     (if st = Some COMPLETED \<and> (v = None \<or> v = Some []) then Some now
      else if st \<noteq> Some COMPLETED then None
      else v)"

text \<open>
  One definition per field of Task: the check of its \<open>Field(...)\<close> declaration, followed
  by its validator where models.py declares one. The validators read the status that
  was validated before them.
\<close>

definition field_id :: "gen \<Rightarrow> TaskData \<Rightarrow> verror list + string" where
  "field_id g d = with_default (g_id g) Inr (d_id d)"

definition field_title :: "TaskData \<Rightarrow> verror list + string" where
  "field_title d = required ''title'' (check_str ''title'' 1 200) (d_title d)"

definition field_description :: "TaskData \<Rightarrow> verror list + string" where
  "field_description d = with_default [] (check_str ''description'' 0 1000) (d_description d)"

definition field_priority :: "TaskData \<Rightarrow> verror list + Priority" where
  "field_priority d = with_default P2 (check_enum ''priority'' Priority_of) (d_priority d)"

definition field_status :: "TaskData \<Rightarrow> verror list + TaskStatus" where
  "field_status d = with_default NOT_STARTED (check_enum ''status'' TaskStatus_of) (d_status d)"

definition values_status :: "TaskData \<Rightarrow> TaskStatus option" where
  \<comment> \<open>\<open>values.get('status')\<close>\<close>
  "values_status d = (case field_status d of Inl _ \<Rightarrow> None | Inr x \<Rightarrow> Some x)"

definition field_progress :: "TaskData \<Rightarrow> verror list + int" where
  "field_progress d =
     with_default 0
       (\<lambda>v. map_sum id (validate_progress (values_status d)) (check_range ''progress'' 0 100 v))
       (d_progress d)"

definition field_category :: "TaskData \<Rightarrow> verror list + Category" where
  "field_category d = with_default ADMIN (check_enum ''category'' Category_of) (d_category d)"

definition field_estimated_minutes :: "TaskData \<Rightarrow> verror list + int" where
  "field_estimated_minutes d =
     with_default 30 (check_range ''estimated_minutes'' 5 480) (d_estimated_minutes d)"

definition field_actual_minutes :: "TaskData \<Rightarrow> verror list + int" where
  "field_actual_minutes d = with_default 0 (check_ge ''actual_minutes'' 0) (d_actual_minutes d)"

definition field_time_block :: "TaskData \<Rightarrow> verror list + TimeBlock option" where
  "field_time_block d =
     with_default None
       (\<lambda>v. case v of None \<Rightarrow> Inr None
             | Some b \<Rightarrow> map_sum id Some (check_enum ''time_block'' TimeBlock_of b))
       (d_time_block d)"

definition field_subtasks :: "gen \<Rightarrow> TaskData \<Rightarrow> verror list + Subtask list" where
  "field_subtasks g d =
     with_default []
       (\<lambda>v. at_loc [Key ''subtasks''] (validate_list (\<lambda>i. Subtask_validate (g_sub_id g i)) 0 v))
       (d_subtasks d)"

definition field_completed_at :: "gen \<Rightarrow> TaskData \<Rightarrow> verror list + string option" where
  "field_completed_at g d =
     with_default None (\<lambda>v. Inr (set_completed_at (g_completed g) (values_status d) v))
       (d_completed_at d)"

definition Task_errors :: "gen \<Rightarrow> TaskData \<Rightarrow> verror list" where
  "Task_errors g d =
     errs_of (field_id g d) @ errs_of (field_title d) @ errs_of (field_description d)
     @ errs_of (field_priority d) @ errs_of (field_status d) @ errs_of (field_progress d)
     @ errs_of (field_category d) @ errs_of (field_estimated_minutes d)
     @ errs_of (field_actual_minutes d) @ errs_of (field_time_block d)
     @ errs_of (field_subtasks g d) @ errs_of (field_completed_at g d)"

definition Task_validate :: "gen \<Rightarrow> TaskData \<Rightarrow> verror list + Task" where
  \<comment> \<open>the fields without a constraint (\<open>notes\<close>, \<open>success_criteria\<close>, \<open>dependencies\<close>, \<open>tags\<close>,
     \<open>created_at\<close>, \<open>updated_at\<close>) take the supplied value or their default\<close>
  "Task_validate g d =
     (if Task_errors g d \<noteq> [] then Inl (Task_errors g d)
      else Inr \<lparr>id_task = projr (field_id g d), title = projr (field_title d),
                description = projr (field_description d),
                priority = projr (field_priority d),
                status = projr (field_status d), progress = projr (field_progress d),
                category = projr (field_category d),
                estimated_minutes = projr (field_estimated_minutes d),
                actual_minutes = projr (field_actual_minutes d),
                time_block = projr (field_time_block d),
                subtasks = projr (field_subtasks g d),
                notes_task = case_option [] id (d_notes d),
                success_criteria = case_option None id (d_success_criteria d),
                dependencies = case_option [] id (d_dependencies d),
                tags = case_option [] id (d_tags d),
                created_at = case_option (g_created g) id (d_created_at d),
                updated_at = case_option (g_updated g) id (d_updated_at d),
                completed_at = projr (field_completed_at g d)\<rparr>)"

definition DaySummary_validate :: "SummaryData \<Rightarrow> DaySummary" where
  \<comment> \<open>\<open>DaySummary(**data)\<close>: no field has a constraint\<close>
  "DaySummary_validate d =
     \<lparr>total_tasks = case_option 0 id (d_total_tasks d),
      completed_tasks = case_option 0 id (d_completed_tasks d),
      in_progress_tasks = case_option 0 id (d_in_progress_tasks d),
      blocked_tasks = case_option 0 id (d_blocked_tasks d),
      total_estimated_minutes = case_option 0 id (d_total_estimated_minutes d),
      total_actual_minutes = case_option 0 id (d_total_actual_minutes d),
      completion_percentage = case_option (Float 0 0) id (d_completion_percentage d),
      categories = case_option [] id (d_categories d),
      priorities = case_option [] id (d_priorities d)\<rparr>"

text \<open>
  What the sync layer reads from outside the repository is gathered in one environment.
  \<^item> \<open>today\<close>, \<open>now\<close>: the clock; \<open>gens i\<close>: the generators for the \<open>i\<close>-th task of a list.
  \<^item> \<open>fromisoformat_ok\<close>: whether \<open>date.fromisoformat\<close> accepts a string (which strings
    it accepts depends on the Python version).
  \<^item> \<open>str_verrors\<close>: the text of a pydantic \<open>ValidationError\<close>, as \<open>str(e)\<close> gives it.
  \<^item> \<open>disk_write\<close>: what writing the cache file of a date does: it succeeds, or it fails
    before the file is opened, or it fails after \<open>open(..., 'w')\<close> has truncated it.
  \<^item> \<open>remote\<close>: the reply of the Supabase client to a request. A request either raises
    with a message or returns rows; the reply is a function of the request only, and
    nothing relates the replies to two different requests, so that other writers
    of the same table are covered.
  \<^item> \<open>nonfield\<close>: for a name that is not a field of Task, whether the object has no such
    attribute, has one that pydantic refuses to assign (raising with a message), or has
    one whose assignment leaves every field as it is.
\<close>

datatype write_outcome = Written | Failed_untouched | Failed_truncated

datatype request =
    Upsert DailyTasksData
  | Insert DailyTasksData
  | Update string DailyTasksData
  | Select_date string
  | Select_all string
  | Select_single string

datatype reply = Fails string | Rows "DailyTasksData list"

datatype attr_kind = NoAttr | Refused string | Plain

record env =
  today :: string
  now :: string
  fromisoformat_ok :: "string \<Rightarrow> bool"
  gens :: "nat \<Rightarrow> gen"
  str_verrors :: "verror list \<Rightarrow> string"
  disk_write :: "string \<Rightarrow> write_outcome"
  remote :: "request \<Rightarrow> reply"
  nonfield :: "string \<Rightarrow> attr_kind"

definition validate_date_format :: "env \<Rightarrow> string \<Rightarrow> verror list + string" where
  "validate_date_format E v =
     (if fromisoformat_ok E v then Inr v else Inl [VError [Key ''date''] value_error])"

definition DailyTasks_validate :: "env \<Rightarrow> DailyTasksData \<Rightarrow> verror list + DailyTasks" where
  \<comment> \<open>\<open>DailyTasks(**data)\<close> on a dict\<close>
  "DailyTasks_validate E d =
     (let v_date = with_default (today E) (validate_date_format E) (d_date d);
          v_tasks = with_default []
             (\<lambda>v. at_loc [Key ''tasks''] (validate_list (\<lambda>i. Task_validate (gens E i)) 0 v))
             (d_tasks d);
          v_summary = with_default DaySummary_default (\<lambda>v. Inr (DaySummary_validate v))
             (d_summary d);
          errs = errs_of v_date @ errs_of v_tasks @ errs_of v_summary
      in if errs \<noteq> [] then Inl errs
         else Inr \<lparr>date = projr v_date, tasks = projr v_tasks, summary = projr v_summary\<rparr>)"

definition DailyTasks_make :: "env \<Rightarrow> string \<Rightarrow> Task list \<Rightarrow> verror list + DailyTasks" where
  \<comment> \<open>\<open>DailyTasks(date=target_date, tasks=tasks)\<close> on Task instances, which pydantic
     takes as they are\<close>
  "DailyTasks_make E target_date ts =
     (case validate_date_format E target_date of
        Inl es \<Rightarrow> Inl es
      | Inr v \<Rightarrow> Inr \<lparr>date = v, tasks = ts, summary = DaySummary_default\<rparr>)"

subsection \<open>model_dump\<close>

definition Subtask_dump :: "Subtask \<Rightarrow> SubtaskData" where
  "Subtask_dump s =
     \<lparr>d_id_sub = Some (id_sub s), d_title_sub = Some (title_sub s),
      d_completed_sub = Some (completed_sub s), d_notes_sub = Some (notes_sub s)\<rparr>"

definition Task_dump :: "Task \<Rightarrow> TaskData" where
  "Task_dump t =
     \<lparr>d_id = Some (id_task t), d_title = Some (title t), d_description = Some (description t),
      d_priority = Some (Priority_value (priority t)),
      d_status = Some (TaskStatus_value (status t)),
      d_progress = Some (progress t),
      d_category = Some (Category_value (category t)),
      d_estimated_minutes = Some (estimated_minutes t),
      d_actual_minutes = Some (actual_minutes t),
      d_time_block = Some (map_option TimeBlock_value (time_block t)),
      d_subtasks = Some (map Subtask_dump (subtasks t)),
      d_notes = Some (notes_task t),
      d_success_criteria = Some (success_criteria t),
      d_dependencies = Some (dependencies t),
      d_tags = Some (tags t),
      d_created_at = Some (created_at t),
      d_updated_at = Some (updated_at t),
      d_completed_at = Some (completed_at t)\<rparr>"

definition DaySummary_dump :: "DaySummary \<Rightarrow> SummaryData" where
  "DaySummary_dump s =
     \<lparr>d_total_tasks = Some (total_tasks s), d_completed_tasks = Some (completed_tasks s),
      d_in_progress_tasks = Some (in_progress_tasks s),
      d_blocked_tasks = Some (blocked_tasks s),
      d_total_estimated_minutes = Some (total_estimated_minutes s),
      d_total_actual_minutes = Some (total_actual_minutes s),
      d_completion_percentage = Some (completion_percentage s),
      d_categories = Some (categories s), d_priorities = Some (priorities s)\<rparr>"

definition DailyTasks_dump :: "DailyTasks \<Rightarrow> DailyTasksData" where
  "DailyTasks_dump d =
     \<lparr>d_date = Some (date d), d_tasks = Some (map Task_dump (tasks d)),
      d_summary = Some (DaySummary_dump (summary d))\<rparr>"

section \<open>Field assignment and attribute reflection\<close>

text \<open>
  The models declare no \<open>validate_assignment\<close>, so \<open>setattr(task, key, value)\<close> on a field
  stores the value as it is. A record field holds values of its own type only: a value
  of another Python type (which the object would hold all the same) is \<open>Untyped\<close>, outside
  the model.
\<close>

datatype pyval = VNone | VStr string | VInt int | VBool bool | VStrList "string list"
  | VPriority Priority | VStatus TaskStatus | VCategory Category | VTimeBlock TimeBlock
  | VSubtasks "Subtask list" | VOther

datatype 'a outcome = Done 'a | Raised string | Untyped

definition field_names :: "string list" where
  "field_names =
     [''id'', ''title'', ''description'', ''priority'', ''status'', ''progress'', ''category'',
      ''estimated_minutes'', ''actual_minutes'', ''time_block'', ''subtasks'', ''notes'',
      ''success_criteria'', ''dependencies'', ''tags'', ''created_at'', ''updated_at'',
      ''completed_at'']"

definition hasattr_Task :: "env \<Rightarrow> string \<Rightarrow> bool" where
  "hasattr_Task E k = (k \<in> set field_names \<or> nonfield E k \<noteq> NoAttr)"

definition no_field_msg :: "string \<Rightarrow> string" where
  "no_field_msg k = ''Task object has no field '' @ k"

definition setattr_Task :: "env \<Rightarrow> string \<Rightarrow> pyval \<Rightarrow> Task \<Rightarrow> Task outcome" where
  "setattr_Task E k v t =
     (if k = ''id'' then (case v of VStr x \<Rightarrow> Done (t\<lparr>id_task := x\<rparr>) | _ \<Rightarrow> Untyped)
      else if k = ''title'' then (case v of VStr x \<Rightarrow> Done (t\<lparr>title := x\<rparr>) | _ \<Rightarrow> Untyped)
      else if k = ''description'' then
        (case v of VStr x \<Rightarrow> Done (t\<lparr>description := x\<rparr>) | _ \<Rightarrow> Untyped)
      else if k = ''priority'' then
        (case v of VPriority x \<Rightarrow> Done (t\<lparr>priority := x\<rparr>) | _ \<Rightarrow> Untyped)
      else if k = ''status'' then
        (case v of VStatus x \<Rightarrow> Done (t\<lparr>status := x\<rparr>) | _ \<Rightarrow> Untyped)
      else if k = ''progress'' then
        (case v of VInt x \<Rightarrow> Done (t\<lparr>progress := x\<rparr>) | _ \<Rightarrow> Untyped)
      else if k = ''category'' then
        (case v of VCategory x \<Rightarrow> Done (t\<lparr>category := x\<rparr>) | _ \<Rightarrow> Untyped)
      else if k = ''estimated_minutes'' then
        (case v of VInt x \<Rightarrow> Done (t\<lparr>estimated_minutes := x\<rparr>) | _ \<Rightarrow> Untyped)
      else if k = ''actual_minutes'' then
        (case v of VInt x \<Rightarrow> Done (t\<lparr>actual_minutes := x\<rparr>) | _ \<Rightarrow> Untyped)
      else if k = ''time_block'' then
        (case v of VNone \<Rightarrow> Done (t\<lparr>time_block := None\<rparr>)
         | VTimeBlock x \<Rightarrow> Done (t\<lparr>time_block := Some x\<rparr>) | _ \<Rightarrow> Untyped)
      else if k = ''subtasks'' then
        (case v of VSubtasks x \<Rightarrow> Done (t\<lparr>subtasks := x\<rparr>) | _ \<Rightarrow> Untyped)
      else if k = ''notes'' then
        (case v of VStrList x \<Rightarrow> Done (t\<lparr>notes_task := x\<rparr>) | _ \<Rightarrow> Untyped)
      else if k = ''success_criteria'' then
        (case v of VNone \<Rightarrow> Done (t\<lparr>success_criteria := None\<rparr>)
         | VStr x \<Rightarrow> Done (t\<lparr>success_criteria := Some x\<rparr>) | _ \<Rightarrow> Untyped)
      else if k = ''dependencies'' then
        (case v of VStrList x \<Rightarrow> Done (t\<lparr>dependencies := x\<rparr>) | _ \<Rightarrow> Untyped)
      else if k = ''tags'' then (case v of VStrList x \<Rightarrow> Done (t\<lparr>tags := x\<rparr>) | _ \<Rightarrow> Untyped)
      else if k = ''created_at'' then
        (case v of VStr x \<Rightarrow> Done (t\<lparr>created_at := x\<rparr>) | _ \<Rightarrow> Untyped)
      else if k = ''updated_at'' then
        (case v of VStr x \<Rightarrow> Done (t\<lparr>updated_at := x\<rparr>) | _ \<Rightarrow> Untyped)
      else if k = ''completed_at'' then
        (case v of VNone \<Rightarrow> Done (t\<lparr>completed_at := None\<rparr>)
         | VStr x \<Rightarrow> Done (t\<lparr>completed_at := Some x\<rparr>) | _ \<Rightarrow> Untyped)
      else (case nonfield E k of
              NoAttr \<Rightarrow> Raised (no_field_msg k)
            | Refused m \<Rightarrow> Raised m
            | Plain \<Rightarrow> Done t))"

text \<open>
  The loop of \<open>update_task\<close> over \<open>updates.items()\<close> (a dict: an association list in
  insertion order), and the search for the first task with the id.
\<close>

fun apply_updates :: "env \<Rightarrow> (string \<times> pyval) list \<Rightarrow> Task \<Rightarrow> Task outcome" where
  "apply_updates E [] t = Done t"
| "apply_updates E ((k, v) # ups) t =
     (if hasattr_Task E k
      then (case setattr_Task E k v t of
              Done t' \<Rightarrow> apply_updates E ups t'
            | Raised m \<Rightarrow> Raised m
            | Untyped \<Rightarrow> Untyped)
      else apply_updates E ups t)"

fun update_first :: "env \<Rightarrow> string \<Rightarrow> (string \<times> pyval) list \<Rightarrow> Task list \<Rightarrow> Task list outcome option" where
  "update_first E task_id ups [] = None"
| "update_first E task_id ups (t # ts) =
     (if id_task t = task_id
      then Some (case apply_updates E ups t of
                   Done t' \<Rightarrow> Done (t'\<lparr>updated_at := now E\<rparr> # ts)
                 | Raised m \<Rightarrow> Raised m
                 | Untyped \<Rightarrow> Untyped)
      else map_option (\<lambda>r. case r of Done ts' \<Rightarrow> Done (t # ts') | Raised m \<Rightarrow> Raised m
                              | Untyped \<Rightarrow> Untyped)
             (update_first E task_id ups ts))"

section \<open>Local cache store (sync.py and sync_improved.py)\<close>

text \<open>
  One file per date, \<open>daily/<date>.json\<close>; the store maps the date to the content of its
  file. \<open>json.dump\<close> writes the dumped dict and \<open>json.load\<close> reads the same dict back
  (every value of a dump is a JSON value: string, int, float, bool, null, list, dict), so
  a readable file is its dict; \<open>Unreadable\<close> is any content on which \<open>open\<close>,
  \<open>json.load\<close> or the unpacking \<open>DailyTasks(**data)\<close> raises.
\<close>

datatype cache_file = Json DailyTasksData | Unreadable

type_synonym files = "string \<Rightarrow> cache_file option"

definition save_local_copy :: "env \<Rightarrow> DailyTasks \<Rightarrow> files \<Rightarrow> files" where
  "save_local_copy E daily_tasks fs =
     (case disk_write E (date daily_tasks) of
        Written \<Rightarrow> fs(date daily_tasks \<mapsto> Json (DailyTasks_dump daily_tasks))
      | Failed_untouched \<Rightarrow> fs
      | Failed_truncated \<Rightarrow> fs(date daily_tasks \<mapsto> Unreadable))"

definition load_local_copy :: "env \<Rightarrow> string \<Rightarrow> files \<Rightarrow> DailyTasks option" where
  "load_local_copy E target_date fs =
     (case fs target_date of
        None \<Rightarrow> None
      | Some Unreadable \<Rightarrow> None
      | Some (Json data) \<Rightarrow>
          (case DailyTasks_validate E data of Inl _ \<Rightarrow> None | Inr d \<Rightarrow> Some d))"

section \<open>Remote reconciler\<close>

text \<open>
  The messages are f-strings over a count and a date; a message is kept as the name of its
  template with the values inserted.
\<close>

datatype message =
    Pushed nat string | Push_failed string | Push_error string
  | Cache_loaded nat string | Pulled nat string | No_tasks_found string
  | Cache_fallback nat | Pull_error string
  | Task_not_found string string | Update_error string
  | Smart_synced bool nat string | Smart_failed string | Smart_error string
  | Cache_no_data nat | Cache_after_error nat string

record SyncResult =
  success :: bool
  message :: message
  data :: "DailyTasksData option"
  error :: "string option"
  error_type :: "string option"
  suggested_fix :: "string option"

definition result :: "bool \<Rightarrow> message \<Rightarrow> DailyTasksData option \<Rightarrow> string option \<Rightarrow> SyncResult" where
  "result ok m dat err =
     \<lparr>success = ok, message = m, data = dat, error = err, error_type = None,
      suggested_fix = None\<rparr>"

definition resolve_date :: "env \<Rightarrow> string option \<Rightarrow> string" where
  \<comment> \<open>\<open>if not target_date: target_date = date.today().isoformat()\<close>\<close>
  "resolve_date E target_date =
     (case target_date of None \<Rightarrow> today E | Some s \<Rightarrow> if s = [] then today E else s)"

definition task_data :: "string \<Rightarrow> Task list \<Rightarrow> DailyTasks \<Rightarrow> DailyTasksData" where
  "task_data target ts daily =
     \<lparr>d_date = Some target, d_tasks = Some (map Task_dump ts),
      d_summary = Some (DaySummary_dump (summary daily))\<rparr>"

subsection \<open>TaskSync (sync.py)\<close>

definition push_tasks :: "env \<Rightarrow> Task list \<Rightarrow> string option \<Rightarrow> files \<Rightarrow> SyncResult \<times> files \<times> request list" where
  "push_tasks E ts target_date fs =
     (let target = resolve_date E target_date
      in case DailyTasks_make E target ts of
           Inl es \<Rightarrow> (result False (Push_error target) None (Some (str_verrors E es)), fs, [])
         | Inr d0 \<Rightarrow>
             (let daily = update_summary d0;
                  fs' = save_local_copy E daily fs;
                  rq = Upsert (task_data target ts daily)
              in case remote E rq of
                   Fails m \<Rightarrow> (result False (Push_error target) None (Some m), fs', [rq])
                 | Rows [] \<Rightarrow>
                     (result False (Push_failed target) None
                        (Some ''No data returned from Supabase''), fs', [rq])
                 | Rows (r # _) \<Rightarrow>
                     (result True (Pushed (length ts) target) (Some r) None, fs', [rq])))"

fun parse_tasks :: "(nat \<Rightarrow> gen) \<Rightarrow> nat \<Rightarrow> TaskData list \<Rightarrow> verror list + Task list" where
  \<comment> \<open>\<open>[Task(**task) for task in ...]\<close>: the first failure raises\<close>
  "parse_tasks G i [] = Inr []"
| "parse_tasks G i (x # xs) =
     (case Task_validate (G i) x of
        Inl es \<Rightarrow> Inl es
      | Inr t \<Rightarrow> (case parse_tasks G (Suc i) xs of Inl es \<Rightarrow> Inl es | Inr ts \<Rightarrow> Inr (t # ts)))"

definition key_error :: "string \<Rightarrow> string" where
  \<comment> \<open>\<open>str(KeyError(k))\<close>\<close>
  "key_error k = [CHR 0x27] @ k @ [CHR 0x27]"

definition row_to_DailyTasks :: "env \<Rightarrow> DailyTasksData \<Rightarrow> string + DailyTasks" where
  \<comment> \<open>the construction from \<open>response.data\<close> in \<open>TaskSync.pull_tasks\<close>; \<open>Inl\<close> is the text
     of the exception raised\<close>
  "row_to_DailyTasks E r =
     (case d_date r of
        None \<Rightarrow> Inl (key_error ''date'')
      | Some dt \<Rightarrow>
          (case d_tasks r of
             None \<Rightarrow> Inl (key_error ''tasks'')
           | Some tds \<Rightarrow>
               (case parse_tasks (gens E) 0 tds of
                  Inl es \<Rightarrow> Inl (str_verrors E es)
                | Inr ts \<Rightarrow>
                    (case validate_date_format E dt of
                       Inl es \<Rightarrow> Inl (str_verrors E es)
                     | Inr v \<Rightarrow>
                         Inr \<lparr>date = v, tasks = ts,
                              summary = (case d_summary r of
                                           None \<Rightarrow> DaySummary_default
                                         | Some sd \<Rightarrow> DaySummary_validate sd)\<rparr>))))"

definition SummaryData_empty :: SummaryData where
  "SummaryData_empty =
     \<lparr>d_total_tasks = None, d_completed_tasks = None, d_in_progress_tasks = None,
      d_blocked_tasks = None, d_total_estimated_minutes = None, d_total_actual_minutes = None,
      d_completion_percentage = None, d_categories = None, d_priorities = None\<rparr>"

definition pull_failure :: "env \<Rightarrow> bool \<Rightarrow> string \<Rightarrow> string \<Rightarrow> files \<Rightarrow> SyncResult" where
  \<comment> \<open>the \<open>except\<close> branch of \<open>TaskSync.pull_tasks\<close>\<close>
  "pull_failure E use_cache target m fs =
     (case (if \<not> use_cache then load_local_copy E target fs else None) of
        Some local_data \<Rightarrow>
          result True (Cache_fallback (length (tasks local_data)))
            (Some (DailyTasks_dump local_data)) None
      | None \<Rightarrow> result False (Pull_error target) None (Some m))"

definition pull_tasks :: "env \<Rightarrow> string option \<Rightarrow> bool \<Rightarrow> files \<Rightarrow> SyncResult \<times> files \<times> request list" where
  "pull_tasks E target_date use_cache fs =
     (let target = resolve_date E target_date
      in case (if use_cache then load_local_copy E target fs else None) of
           Some local_data \<Rightarrow>
             (result True (Cache_loaded (length (tasks local_data)) target)
                (Some (DailyTasks_dump local_data)) None, fs, [])
         | None \<Rightarrow>
             (let rq = Select_single target
              in case remote E rq of
                   Fails m \<Rightarrow> (pull_failure E use_cache target m fs, fs, [rq])
                 | Rows [] \<Rightarrow>
                     (result False (No_tasks_found target)
                        (Some \<lparr>d_date = Some target, d_tasks = Some [],
                               d_summary = Some SummaryData_empty\<rparr>) None, fs, [rq])
                 | Rows (r # _) \<Rightarrow>
                     (case row_to_DailyTasks E r of
                        Inl m \<Rightarrow> (pull_failure E use_cache target m fs, fs, [rq])
                      | Inr daily \<Rightarrow>
                          (result True (Pulled (length (tasks daily)) target)
                             (Some (DailyTasks_dump daily)) None,
                           save_local_copy E daily fs, [rq]))))"

definition update_task :: "env \<Rightarrow> string \<Rightarrow> (string \<times> pyval) list \<Rightarrow> string option \<Rightarrow> files \<Rightarrow> (SyncResult \<times> files \<times> request list) outcome" where
  \<comment> \<open>\<open>Done\<close> is the value returned; \<open>Untyped\<close> marks a run that stores a value of a type
     the record cannot hold. (No run is \<open>Raised\<close>: the function catches every exception.)\<close>
  "update_task E task_id updates target_date fs =
     (let target = resolve_date E target_date;
          (res, fs1, rqs1) = pull_tasks E (Some target) True fs
      in if \<not> success res then Done (res, fs1, rqs1)
         else
           case data res of
             None \<Rightarrow> Done (result False (Update_error task_id) None
                             (Some ''argument after ** must be a mapping''), fs1, rqs1)
           | Some dat \<Rightarrow>
               (case DailyTasks_validate E dat of
                  Inl es \<Rightarrow>
                    Done (result False (Update_error task_id) None (Some (str_verrors E es)),
                          fs1, rqs1)
                | Inr daily \<Rightarrow>
                    (case update_first E task_id updates (tasks daily) of
                       None \<Rightarrow>
                         Done (result False (Task_not_found task_id target) None
                                 (Some ''Task not found''), fs1, rqs1)
                     | Some Untyped \<Rightarrow> Untyped
                     | Some (Raised m) \<Rightarrow>
                         Done (result False (Update_error task_id) None (Some m), fs1, rqs1)
                     | Some (Done ts') \<Rightarrow>
                         (let (res2, fs2, rqs2) = push_tasks E ts' (Some target) fs1
                          in Done (res2, fs2, rqs1 @ rqs2)))))"

subsection \<open>ImprovedTaskSync (sync_improved.py)\<close>

definition lower_char :: "char \<Rightarrow> char" where
  "lower_char c =
     (if c = CHR ''A'' then CHR ''a'' else if c = CHR ''B'' then CHR ''b''
      else if c = CHR ''C'' then CHR ''c'' else if c = CHR ''D'' then CHR ''d''
      else if c = CHR ''E'' then CHR ''e'' else if c = CHR ''F'' then CHR ''f''
      else if c = CHR ''G'' then CHR ''g'' else if c = CHR ''H'' then CHR ''h''
      else if c = CHR ''I'' then CHR ''i'' else if c = CHR ''J'' then CHR ''j''
      else if c = CHR ''K'' then CHR ''k'' else if c = CHR ''L'' then CHR ''l''
      else if c = CHR ''M'' then CHR ''m'' else if c = CHR ''N'' then CHR ''n''
      else if c = CHR ''O'' then CHR ''o'' else if c = CHR ''P'' then CHR ''p''
      else if c = CHR ''Q'' then CHR ''q'' else if c = CHR ''R'' then CHR ''r''
      else if c = CHR ''S'' then CHR ''s'' else if c = CHR ''T'' then CHR ''t''
      else if c = CHR ''U'' then CHR ''u'' else if c = CHR ''V'' then CHR ''v''
      else if c = CHR ''W'' then CHR ''w'' else if c = CHR ''X'' then CHR ''x''
      else if c = CHR ''Y'' then CHR ''y'' else if c = CHR ''Z'' then CHR ''z''
      else c)"

definition lower :: "string \<Rightarrow> string" where
  "lower s = map lower_char s"

fun contains :: "string \<Rightarrow> string \<Rightarrow> bool" where
  \<comment> \<open>\<open>s in t\<close>\<close>
  "contains s [] = (s = [])"
| "contains s (c # cs) = (prefix s (c # cs) \<or> contains s cs)"

definition classify :: "string \<Rightarrow> string \<times> string" where
  \<comment> \<open>error type and suggested fix, from the text of the exception\<close>
  "classify error_message =
     (if contains ''duplicate key'' (lower error_message)
      then (''constraint_violation'', ''Record already exists. Try using UPDATE instead of INSERT.'')
      else if contains ''permission'' (lower error_message)
      then (''permission_error'', ''Check Supabase API key permissions'')
      else if contains ''network'' (lower error_message) \<or> contains ''connection'' (lower error_message)
      then (''network_error'', ''Check internet connection and Supabase URL'')
      else (''unknown_error'', ''Check logs for details''))"

definition smart_error :: "string \<Rightarrow> string \<Rightarrow> SyncResult" where
  "smart_error target error_message =
     \<lparr>success = False, message = Smart_error target, data = None, error = Some error_message,
      error_type = Some (fst (classify error_message)),
      suggested_fix = Some (snd (classify error_message))\<rparr>"

definition record_exists :: "env \<Rightarrow> string \<Rightarrow> bool" where
  "record_exists E target =
     (case remote E (Select_date target) of Fails _ \<Rightarrow> False | Rows rs \<Rightarrow> rs \<noteq> [])"

definition push_tasks_smart :: "env \<Rightarrow> Task list \<Rightarrow> string option \<Rightarrow> files \<Rightarrow> SyncResult \<times> files \<times> request list" where
  "push_tasks_smart E ts target_date fs =
     (let target = resolve_date E target_date
      in case DailyTasks_make E target ts of
           Inl es \<Rightarrow> (smart_error target (str_verrors E es), fs, [])
         | Inr d0 \<Rightarrow>
             (let daily = update_summary d0;
                  fs' = save_local_copy E daily fs;
                  exists = record_exists E target;
                  rq = (if exists then Update target (task_data target ts daily)
                        else Insert (task_data target ts daily));
                  rqs = [Select_date target, rq]
              in case remote E rq of
                   Fails m \<Rightarrow> (smart_error target m, fs', rqs)
                 | Rows [] \<Rightarrow>
                     (\<lparr>success = False, message = Smart_failed target, data = None,
                       error = Some ''No data returned from Supabase'',
                       error_type = Some ''database_error'',
                       suggested_fix = Some ''Check Supabase table permissions and schema''\<rparr>,
                      fs', rqs)
                 | Rows (r # _) \<Rightarrow>
                     (result True (Smart_synced exists (length ts) target) (Some r) None,
                      fs', rqs)))"

definition improved_pull_failure :: "env \<Rightarrow> string \<Rightarrow> string \<Rightarrow> files \<Rightarrow> SyncResult" where
  \<comment> \<open>the \<open>except\<close> branch of \<open>ImprovedTaskSync.pull_tasks\<close>\<close>
  "improved_pull_failure E target m fs =
     (case load_local_copy E target fs of
        Some local_data \<Rightarrow>
          result True (Cache_after_error (length (tasks local_data)) m)
            (Some (DailyTasks_dump local_data)) None
      | None \<Rightarrow>
          \<lparr>success = False, message = Pull_error target, data = None, error = Some m,
           error_type = Some ''database_error'',
           suggested_fix = Some ''Check connection and try local cache''\<rparr>)"

definition improved_pull_tasks :: "env \<Rightarrow> string option \<Rightarrow> bool \<Rightarrow> files \<Rightarrow> SyncResult \<times> files \<times> request list" where
  "improved_pull_tasks E target_date use_cache fs =
     (let target = resolve_date E target_date
      in case (if use_cache then load_local_copy E target fs else None) of
           Some local_data \<Rightarrow>
             (result True (Cache_loaded (length (tasks local_data)) target)
                (Some (DailyTasks_dump local_data)) None, fs, [])
         | None \<Rightarrow>
             (let rq = Select_all target
              in case remote E rq of
                   Fails m \<Rightarrow> (improved_pull_failure E target m fs, fs, [rq])
                 | Rows [] \<Rightarrow>
                     (case load_local_copy E target fs of
                        Some local_data \<Rightarrow>
                          (result True (Cache_no_data (length (tasks local_data)))
                             (Some (DailyTasks_dump local_data)) None, fs, [rq])
                      | None \<Rightarrow>
                          (case DailyTasks_make E target [] of
                             Inl es \<Rightarrow>
                               (improved_pull_failure E target (str_verrors E es) fs, fs, [rq])
                           | Inr no_data \<Rightarrow>
                               (result True (No_tasks_found target)
                                  (Some (DailyTasks_dump no_data)) None, fs, [rq])))
                 | Rows (r # _) \<Rightarrow>
                     (case DailyTasks_validate E r of
                        Inl es \<Rightarrow> (improved_pull_failure E target (str_verrors E es) fs, fs, [rq])
                      | Inr daily \<Rightarrow>
                          (result True (Pulled (length (tasks daily)) target)
                             (Some (DailyTasks_dump daily)) None,
                           save_local_copy E daily fs, [rq]))))"

section \<open>The constraints of the data model\<close>

text \<open>
  A valid entity, in the words of the data model: the field constraints of Task and
  Subtask, the two couplings of progress and status, and \<open>completed_at\<close> set exactly when
  the status is completed; a DailyTasks is valid when its date has the ISO format and its
  tasks are valid. \<open>Task_in_range\<close> is the part that constrains single fields, and
  \<open>TaskData_in_range\<close> says of constructor arguments that every supplied value of a
  constrained field lies in its range or enumeration.
\<close>

definition Subtask_valid :: "Subtask \<Rightarrow> bool" where
  "Subtask_valid s = (1 \<le> length (title_sub s) \<and> length (title_sub s) \<le> 200)"

definition Task_valid :: "Task \<Rightarrow> bool" where
  "Task_valid t =
     (1 \<le> length (title t) \<and> length (title t) \<le> 200 \<and> length (description t) \<le> 1000 \<and>
      0 \<le> progress t \<and> progress t \<le> 100 \<and>
      5 \<le> estimated_minutes t \<and> estimated_minutes t \<le> 480 \<and> 0 \<le> actual_minutes t \<and>
      list_all Subtask_valid (subtasks t) \<and>
      (status t = COMPLETED \<longrightarrow> progress t = 100) \<and>
      (status t = NOT_STARTED \<longrightarrow> progress t = 0) \<and>
      (status t = COMPLETED \<longrightarrow> completed_at t \<noteq> None \<and> completed_at t \<noteq> Some []) \<and>
      (status t \<noteq> COMPLETED \<longrightarrow> completed_at t = None))"

definition DailyTasks_valid :: "env \<Rightarrow> DailyTasks \<Rightarrow> bool" where
  "DailyTasks_valid E d = (fromisoformat_ok E (date d) \<and> list_all Task_valid (tasks d))"

definition Task_in_range :: "Task \<Rightarrow> bool" where
  "Task_in_range t =
     (1 \<le> length (title t) \<and> length (title t) \<le> 200 \<and> length (description t) \<le> 1000 \<and>
      0 \<le> progress t \<and> progress t \<le> 100 \<and>
      5 \<le> estimated_minutes t \<and> estimated_minutes t \<le> 480 \<and> 0 \<le> actual_minutes t)"

definition TaskData_in_range :: "TaskData \<Rightarrow> bool" where
  "TaskData_in_range d =
     (case_option True (\<lambda>v. 1 \<le> length v \<and> length v \<le> 200) (d_title d) \<and>
      case_option True (\<lambda>v. length v \<le> 1000) (d_description d) \<and>
      case_option True (\<lambda>v. 0 \<le> v \<and> v \<le> 100) (d_progress d) \<and>
      case_option True (\<lambda>v. 5 \<le> v \<and> v \<le> 480) (d_estimated_minutes d) \<and>
      case_option True (\<lambda>v. 0 \<le> v) (d_actual_minutes d) \<and>
      case_option True (\<lambda>v. v \<in> set [''P1'', ''P2'', ''P3'']) (d_priority d) \<and>
      case_option True
        (\<lambda>v. v \<in> set [''not_started'', ''in_progress'', ''completed'', ''blocked'', ''cancelled''])
        (d_status d) \<and>
      case_option True
        (\<lambda>v. v \<in> set [''development'', ''design'', ''admin'', ''learning'', ''personal'',
                       ''meeting'', ''planning''])
        (d_category d))"

section \<open>Example entities\<close>

text \<open>
  \<open>Task(id=i, title=ti, created_at=stamp, updated_at=stamp)\<close>: every other field takes the
  default of its declaration.
\<close>

definition Task_new :: "string \<Rightarrow> string \<Rightarrow> string \<Rightarrow> Task" where
  "Task_new i ti stamp =
     \<lparr>id_task = i, title = ti, description = [], priority = P2, status = NOT_STARTED,
      progress = 0, category = ADMIN, estimated_minutes = 30, actual_minutes = 0,
      time_block = None, subtasks = [], notes_task = [], success_criteria = None,
      dependencies = [], tags = [], created_at = stamp, updated_at = stamp,
      completed_at = None\<rparr>"

definition Subtask_new :: "string \<Rightarrow> string \<Rightarrow> Subtask" where
  "Subtask_new i ti = \<lparr>id_sub = i, title_sub = ti, completed_sub = False, notes_sub = None\<rparr>"

definition task_a :: Task where
  "task_a = Task_new ''a'' ''write report'' ''2025-01-29T09:00:00''"

definition day_a :: DailyTasks where
  "day_a = \<lparr>date = ''2025-01-29'', tasks = [task_a], summary = from_tasks [task_a]\<rparr>"

text \<open>
  Eighty tasks, 23 of them completed; and a task with fifty subtasks of which the first
  28 are completed, once in progress and once already completed.
\<close>

definition tasks_80 :: "Task list" where
  "tasks_80 =
     replicate 23 (task_a\<lparr>status := COMPLETED, progress := 100,
                           completed_at := Some ''2025-01-29T10:00:00''\<rparr>)
     @ replicate 57 task_a"

definition subtasks_50 :: "Subtask list" where
  "subtasks_50 =
     replicate 28 ((Subtask_new ''d'' ''done'')\<lparr>completed_sub := True\<rparr>)
     @ Subtask_new ''x'' ''next'' # replicate 21 (Subtask_new ''o'' ''open'')"

definition task_50 :: Task where
  "task_50 = task_a\<lparr>status := IN_PROGRESS, progress := 56, subtasks := subtasks_50\<rparr>"

definition task_50_done :: Task where
  "task_50_done = task_a\<lparr>status := COMPLETED, progress := 100,
     completed_at := Some ''2025-01-29T10:00:00'', subtasks := subtasks_50\<rparr>"

text \<open>
  An environment: the date is 2025-01-29, the disk works, and the remote table holds no
  record and accepts every write (it answers a write with the row written).
\<close>

definition gen_a :: gen where
  "gen_a = \<lparr>g_id = ''generated-id'', g_created = ''2025-01-29T12:00:00'',
            g_updated = ''2025-01-29T12:00:00'', g_completed = ''2025-01-29T12:00:00'',
            g_sub_id = (\<lambda>i. ''generated-sub-id'')\<rparr>"

fun remote_a :: "request \<Rightarrow> reply" where
  "remote_a (Upsert r) = Rows [r]"
| "remote_a (Insert r) = Rows [r]"
| "remote_a (Update d r) = Rows [r]"
| "remote_a (Select_date d) = Rows []"
| "remote_a (Select_all d) = Rows []"
| "remote_a (Select_single d) = Rows []"

definition env_a :: env where
  "env_a =
     \<lparr>today = ''2025-01-29'', now = ''2025-01-29T12:00:00'',
      fromisoformat_ok = (\<lambda>s. length s = 10 \<and> s ! 4 = CHR ''-'' \<and> s ! 7 = CHR ''-''),
      gens = (\<lambda>i. gen_a), str_verrors = (\<lambda>es. ''validation error''),
      disk_write = (\<lambda>d. Written), remote = remote_a, nonfield = (\<lambda>k. NoAttr)\<rparr>"

text \<open>Constructor arguments with a progress out of range.\<close>

definition task_data_bad :: TaskData where
  "task_data_bad = (Task_dump task_a)\<lparr>d_progress := Some 150\<rparr>"

text \<open>
  A cache that holds \<open>day_a\<close>; and a remote table on which a concurrent writer has
  inserted the record of the date after the existence check: the check finds no record
  and the insert violates the unique constraint.
\<close>

definition fs_a :: files where
  "fs_a = [''2025-01-29'' \<mapsto> Json (DailyTasks_dump day_a)]"

fun remote_race :: "request \<Rightarrow> reply" where
  "remote_race (Insert r) = Fails ''duplicate key value violates unique constraint''"
| "remote_race (Upsert r) = Fails ''duplicate key value violates unique constraint''"
| "remote_race (Update d r) = Rows [r]"
| "remote_race (Select_date d) = Rows []"
| "remote_race (Select_all d) = Rows []"
| "remote_race (Select_single d) = Rows []"

definition env_race :: env where
  "env_race = env_a\<lparr>remote := remote_race\<rparr>"

text \<open>The row that a push of \<open>ts\<close> for \<open>target\<close> sends to the remote table.\<close>

definition push_row :: "string \<Rightarrow> Task list \<Rightarrow> DailyTasksData" where
  "push_row target ts =
     task_data target ts
       (update_summary \<lparr>date = target, tasks = ts, summary = DaySummary_default\<rparr>)"

section \<open>Properties of the summary and of the task list\<close>

lemma tasks_add_task: "tasks (add_task task d) = tasks d @ [task]"
  by (simp add: add_task_def update_summary_def)

lemma summary_update_summary: "summary (update_summary d) = from_tasks (tasks (update_summary d))"
  by (simp add: update_summary_def)

text \<open>
  C6. After \<open>add_task\<close>, and after a \<open>remove_task\<close> that removed a task (it returned
  \<open>True\<close>), the summary of the DailyTasks is \<open>DaySummary.from_tasks\<close> of its current
  task list.
\<close>

theorem summary_recomputed_on_mutation:
  "summary (add_task task d) = from_tasks (tasks (add_task task d)) \<and>
   (snd (remove_task task_id d) \<longrightarrow>
      summary (fst (remove_task task_id d)) = from_tasks (tasks (fst (remove_task task_id d))))"
  by (simp add: add_task_def remove_task_def Let_def summary_update_summary)

theorem summary_recomputed_on_mutation_witness:
  "snd (remove_task ''a'' day_a) \<and> tasks (fst (remove_task ''a'' day_a)) = [] \<and>
   summary (fst (remove_task ''a'' day_a)) = from_tasks (tasks (fst (remove_task ''a'' day_a))) \<and>
   summary (add_task task_a day_a) = from_tasks (tasks (add_task task_a day_a))"
proof -
  have r: "snd (remove_task ''a'' day_a)"
    by (simp add: remove_task_def day_a_def task_a_def Task_new_def Let_def)
  have e: "tasks (fst (remove_task ''a'' day_a)) = []"
    by (simp add: remove_task_def day_a_def task_a_def Task_new_def Let_def update_summary_def)
  from summary_recomputed_on_mutation [of task_a day_a "''a''"] r e show ?thesis
    by blast
qed

text \<open>
  C8 as stated: the ids of a DailyTasks are pairwise distinct and \<open>add_task\<close> keeps them
  so. It fails: adding to \<open>day_a\<close> the task it already holds gives the id twice.
\<close>

theorem add_task_unique_ids_counterexample:
  "distinct (map id_task (tasks day_a)) \<and>
   \<not> distinct (map id_task (tasks (add_task task_a day_a)))"
  by (simp add: tasks_add_task day_a_def)

text \<open>
  C8 as amended. \<open>add_task\<close> appends unconditionally: the new sequence is the old one
  followed by the task, so the ids are distinct afterwards exactly when they were
  distinct before and the id of the new task did not occur.
\<close>

theorem add_task_appends:
  "tasks (add_task task d) = tasks d @ [task] \<and>
   (distinct (map id_task (tasks (add_task task d))) =
      (distinct (map id_task (tasks d)) \<and> id_task task \<notin> set (map id_task (tasks d))))"
  by (auto simp add: tasks_add_task)

section \<open>Evaluating the float expressions\<close>

lemma bitlen_nat_numeral:
  "bitlen_nat (numeral n) = Suc (bitlen_nat (numeral n div 2))" "bitlen_nat 0 = 0" "bitlen_nat 1 = 1"
  by (subst bitlen_nat.simps, simp)+

lemmas float_eval = float_div_def float_mul_def float_100_def float_of_ratio_def rhe_div_def
  py_int_def py_round1_def bitlen_nat_numeral Let_def

text \<open>
  The constant 100 is exact; the two products at which the source departs from integer
  arithmetic lie just below the exact values 28.75 and 58.
\<close>

lemma float_100_exact: "float_val float_100 = 100"
  by (simp add: float_eval float_val_def)

lemma product_23_of_80:
  "float_mul (float_div 23 80) float_100 = Float 8092405580431359 (- 48)"
  by (simp add: float_eval)

lemma product_23_of_80_below: "float_val (float_mul (float_div 23 80) float_100) < 2875 / 100"
  by (simp add: product_23_of_80 float_val_def)

lemma product_29_of_50_below: "float_val (float_mul (float_div 29 50) float_100) < 58"
  by (simp add: float_eval float_val_def)

section \<open>The summary aggregator\<close>

lemma map_of_dict_set: "map_of (dict_set d k v) = (map_of d)(k \<mapsto> v)"
  by (induction d) auto

lemma dict_get_map_of: "dict_get d k v0 = (case map_of d k of None \<Rightarrow> v0 | Some v \<Rightarrow> v)"
  by (induction d) auto

lemma set_dict_set: "fst ` set (dict_set d k v) = insert k (fst ` set d)"
proof (induction d)
  case Nil
  then show ?case by simp
next
  case (Cons p d)
  obtain k' v' where p: "p = (k', v')" by (cases p)
  show ?case
  proof (cases "k' = k")
    case True
    with p show ?thesis by simp
  next
    case False
    with p Cons.IH show ?thesis by (simp add: insert_commute)
  qed
qed

lemma distinct_dict_set: "distinct (map fst d) \<Longrightarrow> distinct (map fst (dict_set d k v))"
proof (induction d)
  case Nil
  then show ?case by simp
next
  case (Cons p d)
  obtain k' v' where p: "p = (k', v')" by (cases p)
  show ?case
  proof (cases "k' = k")
    case True
    with Cons.prems p show ?thesis by simp
  next
    case False
    with Cons p show ?thesis by (simp add: set_dict_set)
  qed
qed

lemma map_of_count_key:
  "map_of (count_key d k') k =
     (if k = k' then Some (dict_get d k 0 + 1) else map_of d k)"
  by (simp add: count_key_def map_of_dict_set)

lemma dict_get_count_key:
  "dict_get (count_key d k') k 0 = (if k = k' then dict_get d k 0 + 1 else dict_get d k 0)"
  by (simp add: dict_get_map_of [of "count_key d k'"] map_of_count_key)
     (simp add: dict_get_map_of)

lemma map_of_fold_count:
  "map_of (fold (\<lambda>t d. count_key d (f t)) ts d0) k =
     (if k \<in> f ` set ts
      then Some (dict_get d0 k 0 + int (length (filter (\<lambda>t. f t = k) ts)))
      else map_of d0 k)"
proof (induction ts arbitrary: d0)
  case Nil
  then show ?case by simp
next
  case (Cons t ts)
  show ?case
  proof (cases "f t = k")
    case True
    then show ?thesis
      by (auto simp add: Cons.IH map_of_count_key dict_get_count_key filter_empty_conv image_iff)
  next
    case False
    then have "k \<noteq> f t" by blast
    with False show ?thesis
      by (simp add: Cons.IH map_of_count_key dict_get_count_key)
  qed
qed

lemma distinct_fold_count:
  "distinct (map fst d0) \<Longrightarrow> distinct (map fst (fold (\<lambda>t d. count_key d (f t)) ts d0))"
  by (induction ts arbitrary: d0) (simp_all add: count_key_def distinct_dict_set)

lemma from_tasks_counts:
  "total_tasks (from_tasks ts) = int (length ts) \<and>
   completed_tasks (from_tasks ts) = int (length (filter (\<lambda>t. status t = COMPLETED) ts)) \<and>
   in_progress_tasks (from_tasks ts) = int (length (filter (\<lambda>t. status t = IN_PROGRESS) ts)) \<and>
   blocked_tasks (from_tasks ts) = int (length (filter (\<lambda>t. status t = BLOCKED) ts)) \<and>
   total_estimated_minutes (from_tasks ts) = sum_list (map estimated_minutes ts) \<and>
   total_actual_minutes (from_tasks ts) = sum_list (map actual_minutes ts)"
  by (simp add: from_tasks_def DaySummary_default_def Let_def)

lemma status_partition:
  "length ts = length (filter (\<lambda>t. status t = COMPLETED) ts)
     + length (filter (\<lambda>t. status t = IN_PROGRESS) ts)
     + length (filter (\<lambda>t. status t = BLOCKED) ts)
     + length (filter (\<lambda>t. status t = NOT_STARTED \<or> status t = CANCELLED) ts)"
proof (induction ts)
  case Nil
  then show ?case by simp
next
  case (Cons t ts)
  then show ?case by (cases "status t") simp_all
qed

lemma from_tasks_categories:
  "map_of (categories (from_tasks ts)) k =
     (if k \<in> (\<lambda>t. Category_value (category t)) ` set ts
      then Some (int (length (filter (\<lambda>t. Category_value (category t) = k) ts))) else None)"
  by (simp add: from_tasks_def DaySummary_default_def Let_def map_of_fold_count)

lemma from_tasks_priorities:
  "map_of (priorities (from_tasks ts)) k =
     (if k \<in> (\<lambda>t. Priority_value (priority t)) ` set ts
      then Some (int (length (filter (\<lambda>t. Priority_value (priority t) = k) ts))) else None)"
  by (simp add: from_tasks_def DaySummary_default_def Let_def map_of_fold_count)

lemma from_tasks_empty: "from_tasks [] = DaySummary_default"
  by (simp add: from_tasks_def)

lemma from_tasks_completion:
  "ts \<noteq> [] \<Longrightarrow> completion_percentage (from_tasks ts) =
     py_round1 (float_mul (float_div (length (filter (\<lambda>t. status t = COMPLETED) ts)) (length ts)) float_100)"
  by (simp add: from_tasks_def Let_def)

text \<open>
  C1. For every task list the counts, the minute totals and the two frequency maps are as
  claimed (lemmas \<open>from_tasks_counts\<close>, \<open>status_partition\<close>, \<open>from_tasks_categories\<close>,
  \<open>from_tasks_priorities\<close>, \<open>from_tasks_empty\<close>). The percentage is not: the source
  computes \<open>round((completed / len(tasks)) * 100, 1)\<close>, rounding twice before \<open>round\<close>.
  For 23 completed tasks out of 80 the quotient 0.2875 and its product with 100 are
  rounded to the float 28.749999999999996, and the summary holds 28.7, whereas
  \<open>100 * 23 / 80\<close> is 28.75 exactly and \<open>round(100 * 23 / 80, 1)\<close> is 28.8.
\<close>

theorem from_tasks_completion_23_of_80:
  "total_tasks (from_tasks tasks_80) = 80 \<and>
   completed_tasks (from_tasks tasks_80) = 23 \<and>
   completion_percentage (from_tasks tasks_80) = float_of_ratio 287 10 \<and>
   py_round1 (float_div (100 * 23) 80) = float_of_ratio 288 10 \<and>
   float_of_ratio 287 10 \<noteq> float_of_ratio 288 10"
proof -
  have n: "tasks_80 \<noteq> []" by (simp add: tasks_80_def)
  have c: "length (filter (\<lambda>t. status t = COMPLETED) tasks_80) = 23"
    by (simp add: tasks_80_def task_a_def Task_new_def)
  have l: "length tasks_80 = 80" by (simp add: tasks_80_def)
  have f: "py_round1 (float_mul (float_div 23 80) float_100) = Float 8078331831595827 (- 48)"
    by (simp add: float_eval)
  have g: "float_of_ratio 287 10 = Float 8078331831595827 (- 48)"
    by (simp add: float_eval)
  have h: "float_of_ratio 288 10 = Float 8106479329266893 (- 48)"
    by (simp add: float_eval)
  have i: "py_round1 (float_div 2300 80) = Float 8106479329266893 (- 48)"
    by (simp add: float_eval)
  show ?thesis
    by (simp add: from_tasks_completion [OF n] from_tasks_counts c l f g h i)
qed

section \<open>Subtask completion\<close>

lemma mark_first_append:
  "\<forall>s \<in> set xs. id_sub s \<noteq> sid \<Longrightarrow> id_sub s = sid \<Longrightarrow>
   mark_first sid (xs @ s # ys) = Some (xs @ s\<lparr>completed_sub := True\<rparr> # ys)"
  by (induction xs) simp_all

lemma mark_first_None: "(mark_first sid ss = None) = (sid \<notin> id_sub ` set ss)"
  by (induction ss) auto

lemma mark_first_length: "mark_first sid ss = Some ss' \<Longrightarrow> length ss' = length ss"
  by (induction ss arbitrary: ss') (auto split: if_splits)

lemma complete_subtask_absent:
  "subtask_id \<notin> id_sub ` set (subtasks t) \<Longrightarrow> complete_subtask n0 nc nu subtask_id t = (t, False)"
  by (simp add: complete_subtask_def mark_first_None [symmetric])

lemma complete_subtask_status:
  assumes "mark_first subtask_id (subtasks t) = Some ss"
  shows "snd (complete_subtask n0 nc nu subtask_id t)"
    and "subtasks (fst (complete_subtask n0 nc nu subtask_id t)) = ss"
    and "count_completed ss = length ss \<Longrightarrow> status t \<noteq> COMPLETED \<Longrightarrow>
         status (fst (complete_subtask n0 nc nu subtask_id t)) = COMPLETED \<and>
         progress (fst (complete_subtask n0 nc nu subtask_id t)) = 100 \<and>
         completed_at (fst (complete_subtask n0 nc nu subtask_id t)) = Some nc"
    and "count_completed ss \<noteq> length ss \<or> status t = COMPLETED \<Longrightarrow>
         status (fst (complete_subtask n0 nc nu subtask_id t)) = status t \<and>
         completed_at (fst (complete_subtask n0 nc nu subtask_id t)) = completed_at t"
proof -
  from assms have ne: "ss \<noteq> []" "subtasks t \<noteq> []"
    by (cases "subtasks t"; auto split: if_splits)+
  note defs = complete_subtask_def update_progress_from_subtasks_def Let_def
    mark_completed_def
  from assms show "snd (complete_subtask n0 nc nu subtask_id t)"
    by (simp add: defs)
  from assms show "subtasks (fst (complete_subtask n0 nc nu subtask_id t)) = ss"
    by (simp add: defs)
  from assms ne show "count_completed ss = length ss \<Longrightarrow> status t \<noteq> COMPLETED \<Longrightarrow>
         status (fst (complete_subtask n0 nc nu subtask_id t)) = COMPLETED \<and>
         progress (fst (complete_subtask n0 nc nu subtask_id t)) = 100 \<and>
         completed_at (fst (complete_subtask n0 nc nu subtask_id t)) = Some nc"
    by (simp add: defs)
  from assms ne show "count_completed ss \<noteq> length ss \<or> status t = COMPLETED \<Longrightarrow>
         status (fst (complete_subtask n0 nc nu subtask_id t)) = status t \<and>
         completed_at (fst (complete_subtask n0 nc nu subtask_id t)) = completed_at t"
    by (auto simp add: defs)
qed


lemma progress_29_of_50: "py_int (float_mul (float_div 29 50) float_100) = 57"
  by (simp add: float_eval)

lemma mark_first_50:
  "mark_first ''x'' subtasks_50 =
     Some (replicate 28 ((Subtask_new ''d'' ''done'')\<lparr>completed_sub := True\<rparr>)
       @ (Subtask_new ''x'' ''next'')\<lparr>completed_sub := True\<rparr> # replicate 21 (Subtask_new ''o'' ''open''))"
  unfolding subtasks_50_def
  by (rule mark_first_append) (simp_all add: Subtask_new_def)

text \<open>
  C2. The status part of the claim holds for every task (lemma \<open>complete_subtask_status\<close>).
  The progress is \<open>int((completed / total) * 100)\<close> in floats, which is not always
  \<open>floor(100 * completed / total)\<close>: completing the 29th of 50 subtasks gives 57, since
  \<open>29 / 50\<close> rounds below 0.58 and the product with 100 to 57.99999999999999, whereas
  \<open>100 * 29 div 50 = 58\<close>.
\<close>

theorem complete_subtask_progress_29_of_50:
  "snd (complete_subtask n0 nc nu ''x'' task_50) \<and>
   count_completed (subtasks (fst (complete_subtask n0 nc nu ''x'' task_50))) = 29 \<and>
   length (subtasks (fst (complete_subtask n0 nc nu ''x'' task_50))) = 50 \<and>
   status (fst (complete_subtask n0 nc nu ''x'' task_50)) = IN_PROGRESS \<and>
   progress (fst (complete_subtask n0 nc nu ''x'' task_50)) = 57 \<and>
   (100 * 29) div 50 = (58 :: int)"
  by (simp add: complete_subtask_def task_50_def mark_first_50 update_progress_from_subtasks_def
      count_completed_def Subtask_new_def Let_def progress_29_of_50 task_a_def Task_new_def)

text \<open>
  C9. On a task that is already completed and has incomplete subtasks, completing one
  more subtask leaves status and \<open>completed_at\<close> as they are and lowers the progress
  below 100, as claimed; but the progress is again the float expression, 57 for 29 of 50
  subtasks, not \<open>floor(100 * 29 / 50) = 58\<close>.
\<close>

theorem complete_subtask_on_completed_task_29_of_50:
  "status task_50_done = COMPLETED \<and> progress task_50_done = 100 \<and>
   status (fst (complete_subtask n0 nc nu ''x'' task_50_done)) = COMPLETED \<and>
   completed_at (fst (complete_subtask n0 nc nu ''x'' task_50_done)) = completed_at task_50_done \<and>
   count_completed (subtasks (fst (complete_subtask n0 nc nu ''x'' task_50_done))) = 29 \<and>
   length (subtasks (fst (complete_subtask n0 nc nu ''x'' task_50_done))) = 50 \<and>
   progress (fst (complete_subtask n0 nc nu ''x'' task_50_done)) = 57 \<and>
   (100 * 29) div 50 = (58 :: int)"
  by (simp add: complete_subtask_def task_50_done_def mark_first_50 update_progress_from_subtasks_def
      count_completed_def Subtask_new_def Let_def progress_29_of_50 task_a_def Task_new_def)

section \<open>Dump and validation; the local cache store\<close>

lemma Priority_of_value [simp]: "Priority_of (Priority_value p) = Some p"
  by (cases p) (simp_all add: Priority_of_def)

lemma TaskStatus_of_value [simp]: "TaskStatus_of (TaskStatus_value p) = Some p"
  by (cases p) (simp_all add: TaskStatus_of_def)

lemma Category_of_value [simp]: "Category_of (Category_value p) = Some p"
  by (cases p) (simp_all add: Category_of_def)

lemma TimeBlock_of_value [simp]: "TimeBlock_of (TimeBlock_value p) = Some p"
  by (cases p) (simp_all add: TimeBlock_of_def)

lemma Subtask_roundtrip:
  "Subtask_valid s \<Longrightarrow> Subtask_validate fresh (Subtask_dump s) = Inr s"
  by (auto simp add: Subtask_valid_def Subtask_validate_def Subtask_dump_def with_default_def
      required_def check_str_def errs_of_def Let_def)

lemma validate_list_roundtrip:
  "\<forall>x \<in> set xs. \<forall>i. check i (dump x) = Inr x \<Longrightarrow>
   validate_list check i (map dump xs) = Inr xs"
  by (induction xs arbitrary: i) (simp_all add: at_loc_def)

lemma subtasks_roundtrip:
  "list_all Subtask_valid ss \<Longrightarrow>
   validate_list (\<lambda>i. Subtask_validate (G i)) 0 (map Subtask_dump ss) = Inr ss"
  by (rule validate_list_roundtrip) (simp add: list_all_iff Subtask_roundtrip)

lemma Task_fields_roundtrip:
  assumes "Task_valid t"
  shows "field_id g (Task_dump t) = Inr (id_task t)"
    and "field_title (Task_dump t) = Inr (title t)"
    and "field_description (Task_dump t) = Inr (description t)"
    and "field_priority (Task_dump t) = Inr (priority t)"
    and "field_status (Task_dump t) = Inr (status t)"
    and "field_progress (Task_dump t) = Inr (progress t)"
    and "field_category (Task_dump t) = Inr (category t)"
    and "field_estimated_minutes (Task_dump t) = Inr (estimated_minutes t)"
    and "field_actual_minutes (Task_dump t) = Inr (actual_minutes t)"
    and "field_time_block (Task_dump t) = Inr (time_block t)"
    and "field_subtasks g (Task_dump t) = Inr (subtasks t)"
    and "field_completed_at g (Task_dump t) = Inr (completed_at t)"
proof -
  show "field_id g (Task_dump t) = Inr (id_task t)"
    by (simp add: field_id_def Task_dump_def with_default_def)
  from assms show "field_title (Task_dump t) = Inr (title t)"
    by (auto simp add: field_title_def Task_dump_def required_def check_str_def Task_valid_def)
  from assms show "field_description (Task_dump t) = Inr (description t)"
    by (simp add: field_description_def Task_dump_def with_default_def check_str_def
        Task_valid_def)
  show "field_priority (Task_dump t) = Inr (priority t)"
    by (simp add: field_priority_def Task_dump_def with_default_def check_enum_def)
  show st: "field_status (Task_dump t) = Inr (status t)"
    by (simp add: field_status_def Task_dump_def with_default_def check_enum_def)
  have vs: "values_status (Task_dump t) = Some (status t)"
    by (simp add: values_status_def st)
  have sel: "d_progress (Task_dump t) = Some (progress t)"
    "d_completed_at (Task_dump t) = Some (completed_at t)"
    by (simp_all add: Task_dump_def)
  from assms show "field_progress (Task_dump t) = Inr (progress t)"
    by (auto simp add: field_progress_def vs sel with_default_def check_range_def
        validate_progress_def Task_valid_def)
  show "field_category (Task_dump t) = Inr (category t)"
    by (simp add: field_category_def Task_dump_def with_default_def check_enum_def)
  from assms show "field_estimated_minutes (Task_dump t) = Inr (estimated_minutes t)"
    by (simp add: field_estimated_minutes_def Task_dump_def with_default_def check_range_def
        Task_valid_def)
  from assms show "field_actual_minutes (Task_dump t) = Inr (actual_minutes t)"
    by (simp add: field_actual_minutes_def Task_dump_def with_default_def check_ge_def
        Task_valid_def)
  show "field_time_block (Task_dump t) = Inr (time_block t)"
    by (cases "time_block t")
       (simp_all add: field_time_block_def Task_dump_def with_default_def check_enum_def)
  from assms show "field_subtasks g (Task_dump t) = Inr (subtasks t)"
    by (simp add: field_subtasks_def Task_dump_def with_default_def subtasks_roundtrip
        at_loc_def Task_valid_def)
  from assms show "field_completed_at g (Task_dump t) = Inr (completed_at t)"
    by (auto simp add: field_completed_at_def vs sel with_default_def set_completed_at_def
        Task_valid_def)
qed

lemma Task_roundtrip:
  assumes "Task_valid t"
  shows "Task_validate g (Task_dump t) = Inr t"
proof -
  note f = Task_fields_roundtrip [OF assms]
  have e: "Task_errors g (Task_dump t) = []"
    by (simp add: Task_errors_def f errs_of_def)
  show ?thesis
    by (simp add: Task_validate_def e f) (simp add: Task_dump_def)
qed

lemma tasks_roundtrip:
  "list_all Task_valid ts \<Longrightarrow>
   validate_list (\<lambda>i. Task_validate (G i)) 0 (map Task_dump ts) = Inr ts"
  by (rule validate_list_roundtrip) (simp add: list_all_iff Task_roundtrip)

lemma DaySummary_roundtrip: "DaySummary_validate (DaySummary_dump s) = s"
  by (simp add: DaySummary_validate_def DaySummary_dump_def)

lemma DailyTasks_roundtrip:
  "DailyTasks_valid E d \<Longrightarrow> DailyTasks_validate E (DailyTasks_dump d) = Inr d"
  by (simp add: DailyTasks_valid_def DailyTasks_validate_def DailyTasks_dump_def with_default_def
      validate_date_format_def errs_of_def Let_def tasks_roundtrip at_loc_def DaySummary_roundtrip)

lemma env_a_simps [simp]:
  "today env_a = ''2025-01-29''" "now env_a = ''2025-01-29T12:00:00''"
  "fromisoformat_ok env_a ''2025-01-29''" "gens env_a i = gen_a"
  "disk_write env_a x = Written" "remote env_a = remote_a" "nonfield env_a k = NoAttr"
  by (simp_all add: env_a_def)

lemma task_a_valid: "Task_valid task_a"
  by (simp add: task_a_def Task_new_def Task_valid_def)

lemma day_a_valid: "DailyTasks_valid env_a day_a"
  by (simp add: DailyTasks_valid_def day_a_def task_a_valid)

text \<open>
  C7. A valid DailyTasks that is saved (the write succeeding) and then loaded for the same
  date comes back equal: equal date, equal tasks field by field, equal summary.
\<close>

theorem save_then_load:
  "DailyTasks_valid E d \<Longrightarrow> disk_write E (date d) = Written \<Longrightarrow>
   load_local_copy E (date d) (save_local_copy E d fs) = Some d"
  by (simp add: save_local_copy_def load_local_copy_def DailyTasks_roundtrip)

theorem save_then_load_witness:
  "DailyTasks_valid env_a day_a \<and> disk_write env_a (date day_a) = Written \<and>
   load_local_copy env_a (date day_a) (save_local_copy env_a day_a Map.empty) = Some day_a"
  using save_then_load [of env_a day_a Map.empty] day_a_valid by simp

section \<open>Field constraints: construction against assignment\<close>

lemma field_title_ok:
  "errs_of (field_title d) = [] \<Longrightarrow>
   1 \<le> length (projr (field_title d)) \<and> length (projr (field_title d)) \<le> 200"
  by (cases "d_title d")
     (auto simp add: field_title_def required_def check_str_def errs_of_def Suc_le_eq
        split: if_splits)

lemma field_description_ok:
  "errs_of (field_description d) = [] \<Longrightarrow> length (projr (field_description d)) \<le> 1000"
  by (cases "d_description d")
     (auto simp add: field_description_def with_default_def check_str_def errs_of_def)

lemma field_progress_ok:
  "errs_of (field_progress d) = [] \<Longrightarrow>
   0 \<le> projr (field_progress d) \<and> projr (field_progress d) \<le> 100"
  by (cases "d_progress d")
     (auto simp add: field_progress_def with_default_def check_range_def errs_of_def
        validate_progress_def)

lemma field_progress_coupled:
  "errs_of (field_progress d) = [] \<Longrightarrow> d_progress d = Some p \<Longrightarrow>
   projr (field_progress d) = validate_progress (values_status d) p"
  by (auto simp add: field_progress_def with_default_def check_range_def errs_of_def)

lemma field_estimated_minutes_ok:
  "errs_of (field_estimated_minutes d) = [] \<Longrightarrow>
   5 \<le> projr (field_estimated_minutes d) \<and> projr (field_estimated_minutes d) \<le> 480"
  by (cases "d_estimated_minutes d")
     (auto simp add: field_estimated_minutes_def with_default_def check_range_def errs_of_def)

lemma field_actual_minutes_ok:
  "errs_of (field_actual_minutes d) = [] \<Longrightarrow> 0 \<le> projr (field_actual_minutes d)"
  by (cases "d_actual_minutes d")
     (auto simp add: field_actual_minutes_def with_default_def check_ge_def errs_of_def)

lemma field_status_values:
  "errs_of (field_status d) = [] \<Longrightarrow> values_status d = Some (projr (field_status d))"
  by (cases "d_status d")
     (auto simp add: field_status_def values_status_def with_default_def check_enum_def
        errs_of_def split: option.splits)

lemma Task_validate_Inr:
  assumes "Task_validate g d = Inr t"
  shows "Task_errors g d = []"
    and "title t = projr (field_title d)" and "description t = projr (field_description d)"
    and "status t = projr (field_status d)" and "progress t = projr (field_progress d)"
    and "estimated_minutes t = projr (field_estimated_minutes d)"
    and "actual_minutes t = projr (field_actual_minutes d)"
proof -
  from assms show e: "Task_errors g d = []"
    by (simp add: Task_validate_def split: if_splits)
  from assms e have "t = \<lparr>id_task = projr (field_id g d), title = projr (field_title d),
                description = projr (field_description d),
                priority = projr (field_priority d),
                status = projr (field_status d), progress = projr (field_progress d),
                category = projr (field_category d),
                estimated_minutes = projr (field_estimated_minutes d),
                actual_minutes = projr (field_actual_minutes d),
                time_block = projr (field_time_block d),
                subtasks = projr (field_subtasks g d),
                notes_task = case_option [] id (d_notes d),
                success_criteria = case_option None id (d_success_criteria d),
                dependencies = case_option [] id (d_dependencies d),
                tags = case_option [] id (d_tags d),
                created_at = case_option (g_created g) id (d_created_at d),
                updated_at = case_option (g_updated g) id (d_updated_at d),
                completed_at = projr (field_completed_at g d)\<rparr>"
    by (simp add: Task_validate_def)
  then show "title t = projr (field_title d)" "description t = projr (field_description d)"
    "status t = projr (field_status d)" "progress t = projr (field_progress d)"
    "estimated_minutes t = projr (field_estimated_minutes d)"
    "actual_minutes t = projr (field_actual_minutes d)"
    by simp_all
qed

lemma Task_validate_in_range:
  assumes "Task_validate g d = Inr t"
  shows "Task_in_range t"
    and "d_progress d = Some p \<Longrightarrow> progress t = validate_progress (Some (status t)) p"
proof -
  note v = Task_validate_Inr [OF assms]
  from v(1) have e: "errs_of (field_title d) = []" "errs_of (field_description d) = []"
    "errs_of (field_status d) = []"
    "errs_of (field_progress d) = []" "errs_of (field_estimated_minutes d) = []"
    "errs_of (field_actual_minutes d) = []"
    by (simp_all add: Task_errors_def)
  show "Task_in_range t"
    unfolding Task_in_range_def v
    using field_title_ok [OF e(1)] field_description_ok [OF e(2)] field_progress_ok [OF e(4)]
      field_estimated_minutes_ok [OF e(5)] field_actual_minutes_ok [OF e(6)]
    by simp
  show "d_progress d = Some p \<Longrightarrow> progress t = validate_progress (Some (status t)) p"
    unfolding v using field_progress_coupled [OF e(4)] field_status_values [OF e(3)] by simp
qed

lemma no_errors_in_range:
  assumes "Task_errors g d = []"
  shows "TaskData_in_range d"
proof -
  from assms have e: "errs_of (field_title d) = []" "errs_of (field_description d) = []"
    "errs_of (field_priority d) = []" "errs_of (field_status d) = []"
    "errs_of (field_progress d) = []" "errs_of (field_category d) = []"
    "errs_of (field_estimated_minutes d) = []" "errs_of (field_actual_minutes d) = []"
    by (simp_all add: Task_errors_def)
  from e(1) have 1: "case_option True (\<lambda>v. 1 \<le> length v \<and> length v \<le> 200) (d_title d)"
    by (cases "d_title d")
       (auto simp add: field_title_def required_def check_str_def errs_of_def Suc_le_eq
          split: if_splits)
  from e(2) have 2: "case_option True (\<lambda>v. length v \<le> 1000) (d_description d)"
    by (cases "d_description d")
       (auto simp add: field_description_def with_default_def check_str_def errs_of_def
          split: if_splits)
  from e(5) have 3: "case_option True (\<lambda>v. 0 \<le> v \<and> v \<le> 100) (d_progress d)"
    by (cases "d_progress d")
       (auto simp add: field_progress_def with_default_def check_range_def errs_of_def
          split: if_splits)
  from e(7) have 4: "case_option True (\<lambda>v. 5 \<le> v \<and> v \<le> 480) (d_estimated_minutes d)"
    by (cases "d_estimated_minutes d")
       (auto simp add: field_estimated_minutes_def with_default_def check_range_def errs_of_def
          split: if_splits)
  from e(8) have 5: "case_option True (\<lambda>v. 0 \<le> v) (d_actual_minutes d)"
    by (cases "d_actual_minutes d")
       (auto simp add: field_actual_minutes_def with_default_def check_ge_def errs_of_def
          split: if_splits)
  from e(3) have 6: "case_option True (\<lambda>v. v \<in> set [''P1'', ''P2'', ''P3'']) (d_priority d)"
    by (cases "d_priority d")
       (simp_all add: field_priority_def with_default_def check_enum_def errs_of_def
          Priority_of_def split: if_splits)
  from e(4) have 7: "case_option True
        (\<lambda>v. v \<in> set [''not_started'', ''in_progress'', ''completed'', ''blocked'', ''cancelled''])
        (d_status d)"
    by (cases "d_status d")
       (simp_all add: field_status_def with_default_def check_enum_def errs_of_def
          TaskStatus_of_def split: if_splits)
  from e(6) have 8: "case_option True
        (\<lambda>v. v \<in> set [''development'', ''design'', ''admin'', ''learning'', ''personal'',
                       ''meeting'', ''planning''])
        (d_category d)"
    by (cases "d_category d")
       (simp_all add: field_category_def with_default_def check_enum_def errs_of_def
          Category_of_def split: if_splits)
  from 1 2 3 4 5 6 7 8 show ?thesis
    unfolding TaskData_in_range_def by blast
qed

lemma out_of_range_errors: "\<not> TaskData_in_range d \<Longrightarrow> Task_errors g d \<noteq> []"
  using no_errors_in_range by blast

text \<open>
  C5 as stated: an out-of-range value is rejected at construction and on every later
  assignment. The second half fails: the models do not validate assignments, and
  assigning 150 to the progress of a task stores 150.
\<close>

theorem assignment_not_validated_counterexample:
  "Task_in_range task_a \<and>
   setattr_Task env_a ''progress'' (VInt 150) task_a = Done (task_a\<lparr>progress := 150\<rparr>) \<and>
   \<not> Task_in_range (task_a\<lparr>progress := 150\<rparr>)"
  by (simp add: setattr_Task_def Task_in_range_def task_a_def Task_new_def)

text \<open>
  C5 as amended. At construction every constrained field is checked: a constructed task
  has title, description, progress and minutes in range, a supplied progress is coupled
  to the status by the validator, and arguments with a supplied value out of its range
  or enumeration are rejected with a non-empty list of validation errors. An assignment
  to a constrained field stores the assigned value, whatever it is.
\<close>

theorem Task_constraints_checked_at_construction_only:
  "(Task_validate g d = Inr t \<longrightarrow>
      Task_in_range t \<and>
      (\<forall>p. d_progress d = Some p \<longrightarrow> progress t = validate_progress (Some (status t)) p)) \<and>
   (\<not> TaskData_in_range d \<longrightarrow> (\<exists>es. es \<noteq> [] \<and> Task_validate g d = Inl es)) \<and>
   setattr_Task E ''title'' (VStr s) t0 = Done (t0\<lparr>title := s\<rparr>) \<and>
   setattr_Task E ''description'' (VStr s) t0 = Done (t0\<lparr>description := s\<rparr>) \<and>
   setattr_Task E ''progress'' (VInt v) t0 = Done (t0\<lparr>progress := v\<rparr>) \<and>
   setattr_Task E ''estimated_minutes'' (VInt v) t0 = Done (t0\<lparr>estimated_minutes := v\<rparr>) \<and>
   setattr_Task E ''actual_minutes'' (VInt v) t0 = Done (t0\<lparr>actual_minutes := v\<rparr>)"
proof -
  have a: "Task_validate g d = Inr t \<longrightarrow>
      Task_in_range t \<and>
      (\<forall>p. d_progress d = Some p \<longrightarrow> progress t = validate_progress (Some (status t)) p)"
    using Task_validate_in_range by blast
  have b: "\<not> TaskData_in_range d \<longrightarrow> (\<exists>es. es \<noteq> [] \<and> Task_validate g d = Inl es)"
    using out_of_range_errors [of d g] by (simp add: Task_validate_def)
  have c: "setattr_Task E ''title'' (VStr s) t0 = Done (t0\<lparr>title := s\<rparr>)"
    "setattr_Task E ''description'' (VStr s) t0 = Done (t0\<lparr>description := s\<rparr>)"
    "setattr_Task E ''progress'' (VInt v) t0 = Done (t0\<lparr>progress := v\<rparr>)"
    "setattr_Task E ''estimated_minutes'' (VInt v) t0 = Done (t0\<lparr>estimated_minutes := v\<rparr>)"
    "setattr_Task E ''actual_minutes'' (VInt v) t0 = Done (t0\<lparr>actual_minutes := v\<rparr>)"
    by (simp_all add: setattr_Task_def)
  from a b c show ?thesis by blast
qed

theorem Task_constraints_checked_at_construction_only_witness:
  "Task_validate gen_a (Task_dump task_a) = Inr task_a \<and> Task_in_range task_a \<and>
   \<not> TaskData_in_range task_data_bad \<and>
   (\<exists>es. es \<noteq> [] \<and> Task_validate gen_a task_data_bad = Inl es)"
proof -
  have 1: "Task_validate gen_a (Task_dump task_a) = Inr task_a"
    by (rule Task_roundtrip [OF task_a_valid])
  have 2: "\<not> TaskData_in_range task_data_bad"
    by (simp add: TaskData_in_range_def task_data_bad_def Task_dump_def)
  from Task_constraints_checked_at_construction_only [of gen_a "Task_dump task_a" task_a]
    Task_constraints_checked_at_construction_only [of gen_a task_data_bad]
    1 2 show ?thesis by blast
qed


section \<open>Pull: fallback and absence of data\<close>

lemma load_fs_a: "load_local_copy env_a ''2025-01-29'' fs_a = Some day_a"
  using DailyTasks_roundtrip [OF day_a_valid]
  by (simp add: load_local_copy_def fs_a_def)

lemma load_empty: "load_local_copy E d Map.empty = None"
  by (simp add: load_local_copy_def)

lemma improved_pull_fallback:
  assumes "load_local_copy E (resolve_date E td) fs = Some l"
    and "remote E (Select_all (resolve_date E td)) = Fails m \<or>
         remote E (Select_all (resolve_date E td)) = Rows []"
  shows "success (fst (improved_pull_tasks E td False fs))"
    and "data (fst (improved_pull_tasks E td False fs)) = Some (DailyTasks_dump l)"
  using assms
  by (auto simp add: improved_pull_tasks_def improved_pull_failure_def result_def Let_def)

lemma improved_pull_no_data:
  assumes "load_local_copy E (resolve_date E td) fs = None"
    and "remote E (Select_all (resolve_date E td)) = Rows []"
    and "fromisoformat_ok E (resolve_date E td)"
  shows "success (fst (improved_pull_tasks E td False fs))"
    and "data (fst (improved_pull_tasks E td False fs)) =
         Some (DailyTasks_dump \<lparr>date = resolve_date E td, tasks = [], summary = DaySummary_default\<rparr>)"
  using assms
  by (auto simp add: improved_pull_tasks_def result_def Let_def DailyTasks_make_def
      validate_date_format_def)

lemma pull_tasks_no_data_fails:
  assumes "load_local_copy E (resolve_date E td) fs = None"
    and "remote E (Select_single (resolve_date E td)) = Fails m \<or>
         remote E (Select_single (resolve_date E td)) = Rows []"
  shows "\<not> success (fst (pull_tasks E td False fs))"
  using assms
  by (auto simp add: pull_tasks_def pull_failure_def result_def Let_def)

text \<open>
  C4. \<open>ImprovedTaskSync.pull_tasks\<close> does what the claim says (lemmas
  \<open>improved_pull_fallback\<close>, \<open>improved_pull_no_data\<close>). \<open>TaskSync.pull_tasks\<close> of sync.py,
  the class the scripts use, does not: when the remote returns no record it reports
  \<open>success=False\<close>, whether a local snapshot exists or not, and when the query raises
  and no snapshot exists it reports failure as well (lemma \<open>pull_tasks_no_data_fails\<close>).
\<close>

theorem pull_tasks_no_record:
  "remote env_a (Select_single ''2025-01-29'') = Rows [] \<and>
   remote env_a (Select_all ''2025-01-29'') = Rows [] \<and>
   load_local_copy env_a ''2025-01-29'' Map.empty = None \<and>
   load_local_copy env_a ''2025-01-29'' fs_a = Some day_a \<and>
   \<not> success (fst (pull_tasks env_a (Some ''2025-01-29'') False Map.empty)) \<and>
   \<not> success (fst (pull_tasks env_a (Some ''2025-01-29'') False fs_a)) \<and>
   success (fst (improved_pull_tasks env_a (Some ''2025-01-29'') False Map.empty)) \<and>
   data (fst (improved_pull_tasks env_a (Some ''2025-01-29'') False fs_a)) = Some (DailyTasks_dump day_a)"
  by (simp add: load_fs_a load_empty pull_tasks_def improved_pull_tasks_def resolve_date_def
      result_def Let_def DailyTasks_make_def validate_date_format_def)


section \<open>Push: a duplicate-key failure of the insert\<close>

lemma env_race_simps [simp]:
  "today env_race = ''2025-01-29''" "fromisoformat_ok env_race ''2025-01-29''"
  "disk_write env_race x = Written" "remote env_race = remote_race"
  by (simp_all add: env_race_def env_a_def)

lemma classify_duplicate_key:
  "contains ''duplicate key'' (lower m) \<Longrightarrow>
   classify m = (''constraint_violation'', ''Record already exists. Try using UPDATE instead of INSERT.'')"
  by (simp add: classify_def)

lemma contains_duplicate:
  "contains ''duplicate key'' (lower ''duplicate key value violates unique constraint'')"
  by (simp add: lower_def lower_char_def)

text \<open>
  C3 as stated: a push whose insert fails with a duplicate-key violation retries once as
  an update and reports success. It fails: on the table where a concurrent writer has
  inserted the date after the existence check, \<open>push_tasks_smart\<close> issues the existence
  query and the insert, nothing else, and reports failure.
\<close>

theorem push_duplicate_key_counterexample:
  "\<not> record_exists env_race ''2025-01-29'' \<and>
   remote env_race (Insert (push_row ''2025-01-29'' [task_a])) =
     Fails ''duplicate key value violates unique constraint'' \<and>
   \<not> success (fst (push_tasks_smart env_race [task_a] (Some ''2025-01-29'') Map.empty)) \<and>
   snd (snd (push_tasks_smart env_race [task_a] (Some ''2025-01-29'') Map.empty)) =
     [Select_date ''2025-01-29'', Insert (push_row ''2025-01-29'' [task_a])]"
  by (simp add: push_tasks_smart_def DailyTasks_make_def validate_date_format_def
      Let_def push_row_def smart_error_def result_def record_exists_def resolve_date_def)

text \<open>
  C3 as amended. When the existence check of \<open>push_tasks_smart\<close> finds no record and the
  insert raises with a message containing \<open>duplicate key\<close>, the push issues no further
  request and reports failure, with the message as error, the error type
  \<open>constraint_violation\<close> and the suggested fix to use an update. \<open>push_tasks\<close> of sync.py
  issues one upsert and reports failure with the message when it raises.
\<close>

theorem push_duplicate_key_not_retried:
  "(fromisoformat_ok E (resolve_date E td) \<and> \<not> record_exists E (resolve_date E td) \<and>
    remote E (Insert (push_row (resolve_date E td) ts)) = Fails m \<and>
    contains ''duplicate key'' (lower m) \<longrightarrow>
      \<not> success (fst (push_tasks_smart E ts td fs)) \<and>
      error (fst (push_tasks_smart E ts td fs)) = Some m \<and>
      error_type (fst (push_tasks_smart E ts td fs)) = Some ''constraint_violation'' \<and>
      suggested_fix (fst (push_tasks_smart E ts td fs)) =
        Some ''Record already exists. Try using UPDATE instead of INSERT.'' \<and>
      snd (snd (push_tasks_smart E ts td fs)) =
        [Select_date (resolve_date E td), Insert (push_row (resolve_date E td) ts)]) \<and>
   (fromisoformat_ok E (resolve_date E td) \<and>
    remote E (Upsert (push_row (resolve_date E td) ts)) = Fails m \<longrightarrow>
      \<not> success (fst (push_tasks E ts td fs)) \<and>
      error (fst (push_tasks E ts td fs)) = Some m \<and>
      snd (snd (push_tasks E ts td fs)) = [Upsert (push_row (resolve_date E td) ts)])"
  by (simp add: push_tasks_smart_def push_tasks_def DailyTasks_make_def validate_date_format_def
      Let_def push_row_def smart_error_def classify_duplicate_key result_def)

theorem push_duplicate_key_not_retried_witness:
  "fromisoformat_ok env_race (resolve_date env_race None) \<and>
   \<not> record_exists env_race (resolve_date env_race None) \<and>
   remote env_race (Insert (push_row (resolve_date env_race None) [task_a])) =
     Fails ''duplicate key value violates unique constraint'' \<and>
   remote env_race (Upsert (push_row (resolve_date env_race None) [task_a])) =
     Fails ''duplicate key value violates unique constraint'' \<and>
   contains ''duplicate key'' (lower ''duplicate key value violates unique constraint'') \<and>
   error_type (fst (push_tasks_smart env_race [task_a] None Map.empty)) = Some ''constraint_violation'' \<and>
   \<not> success (fst (push_tasks env_race [task_a] None Map.empty))"
proof -
  have h: "fromisoformat_ok env_race (resolve_date env_race None)"
    "\<not> record_exists env_race (resolve_date env_race None)"
    "remote env_race (Insert (push_row (resolve_date env_race None) [task_a])) =
       Fails ''duplicate key value violates unique constraint''"
    "remote env_race (Upsert (push_row (resolve_date env_race None) [task_a])) =
       Fails ''duplicate key value violates unique constraint''"
    by (simp_all add: resolve_date_def record_exists_def)
  from push_duplicate_key_not_retried [of env_race None "[task_a]"
      "''duplicate key value violates unique constraint''" Map.empty] h contains_duplicate
  show ?thesis by blast
qed

section \<open>update_task: keys that name no attribute\<close>

lemma apply_updates_filter:
  "apply_updates E (filter (\<lambda>(k, v). hasattr_Task E k) ups) t = apply_updates E ups t"
  by (induction ups arbitrary: t) (auto split: outcome.splits)

lemma apply_updates_unknown:
  "\<forall>(k, v) \<in> set ups. \<not> hasattr_Task E k \<Longrightarrow> apply_updates E ups t = Done t"
  by (induction ups) auto

lemma update_first_filter:
  "update_first E task_id (filter (\<lambda>(k, v). hasattr_Task E k) ups) ts = update_first E task_id ups ts"
  by (induction ts) (simp_all add: apply_updates_filter)

lemma update_task_filter:
  "update_task E task_id (filter (\<lambda>(k, v). hasattr_Task E k) ups) td fs =
   update_task E task_id ups td fs"
  unfolding update_task_def update_first_filter ..

text \<open>
  C10. \<open>update_task\<close> applies exactly the keys for which \<open>hasattr(task, key)\<close> holds: its
  outcome (result, cache and remote requests) is the one for the updates restricted to
  those keys. When no key names an attribute, applying the updates raises nothing and
  leaves the task as it is, and the outcome is that of an update with no changes: when
  the pull succeeds and the task is found, it is the result of the push of the task list
  with the refreshed \<open>updated_at\<close>, hence a success when that push succeeds.
\<close>

theorem update_task_skips_unknown_keys:
  "update_task E task_id ups td fs =
     update_task E task_id (filter (\<lambda>(k, v). hasattr_Task E k) ups) td fs \<and>
   ((\<forall>(k, v) \<in> set ups. \<not> hasattr_Task E k) \<longrightarrow>
      apply_updates E ups t = Done t \<and>
      update_task E task_id ups td fs = update_task E task_id [] td fs \<and>
      (pull_tasks E (Some (resolve_date E td)) True fs = (res, fs1, rqs1) \<and> success res \<and>
       data res = Some dat \<and> DailyTasks_validate E dat = Inr daily \<and>
       update_first E task_id [] (tasks daily) = Some (Done ts') \<and>
       success (fst (push_tasks E ts' (Some (resolve_date E td)) fs1)) \<longrightarrow>
         (\<exists>r fs2 rqs. update_task E task_id ups td fs = Done (r, fs2, rqs) \<and> success r)))"
proof -
  have f: "(\<forall>(k, v) \<in> set ups. \<not> hasattr_Task E k) \<Longrightarrow>
      filter (\<lambda>(k, v). hasattr_Task E k) ups = []"
    by (auto simp add: filter_empty_conv)
  have p: "pull_tasks E (Some (resolve_date E td)) True fs = (res, fs1, rqs1) \<Longrightarrow> success res \<Longrightarrow>
       data res = Some dat \<Longrightarrow> DailyTasks_validate E dat = Inr daily \<Longrightarrow>
       update_first E task_id [] (tasks daily) = Some (Done ts') \<Longrightarrow>
       success (fst (push_tasks E ts' (Some (resolve_date E td)) fs1)) \<Longrightarrow>
       \<exists>r fs2 rqs. update_task E task_id [] td fs = Done (r, fs2, rqs) \<and> success r"
    by (simp add: update_task_def Let_def split_def)
  from f p show ?thesis
    using update_task_filter [of E task_id ups td fs] apply_updates_unknown [of ups E t]
    by auto
qed

lemma pull_cached_a:
  "pull_tasks env_a (Some ''2025-01-29'') True fs_a =
     (result True (Cache_loaded 1 ''2025-01-29'') (Some (DailyTasks_dump day_a)) None, fs_a, [])"
  by (simp add: pull_tasks_def resolve_date_def load_fs_a Let_def) (simp add: day_a_def)

lemma update_task_run_a:
  "update_task env_a ''a'' [] (Some ''2025-01-29'') fs_a =
     Done (result True (Pushed 1 ''2025-01-29'')
             (Some (push_row ''2025-01-29'' [task_a\<lparr>updated_at := ''2025-01-29T12:00:00''\<rparr>])) None,
           save_local_copy env_a
             (update_summary \<lparr>date = ''2025-01-29'',
                tasks = [task_a\<lparr>updated_at := ''2025-01-29T12:00:00''\<rparr>],
                summary = DaySummary_default\<rparr>) fs_a,
           [Upsert (push_row ''2025-01-29'' [task_a\<lparr>updated_at := ''2025-01-29T12:00:00''\<rparr>])])"
proof -
  have v: "DailyTasks_validate env_a (DailyTasks_dump day_a) = Inr day_a"
    by (rule DailyTasks_roundtrip [OF day_a_valid])
  have u: "update_first env_a ''a'' [] (tasks day_a) =
      Some (Done [task_a\<lparr>updated_at := ''2025-01-29T12:00:00''\<rparr>])"
    by (simp add: day_a_def) (simp add: task_a_def Task_new_def)
  have p: "push_tasks env_a [task_a\<lparr>updated_at := ''2025-01-29T12:00:00''\<rparr>] (Some ''2025-01-29'') fs_a =
     (result True (Pushed 1 ''2025-01-29'')
             (Some (push_row ''2025-01-29'' [task_a\<lparr>updated_at := ''2025-01-29T12:00:00''\<rparr>])) None,
           save_local_copy env_a
             (update_summary \<lparr>date = ''2025-01-29'',
                tasks = [task_a\<lparr>updated_at := ''2025-01-29T12:00:00''\<rparr>],
                summary = DaySummary_default\<rparr>) fs_a,
           [Upsert (push_row ''2025-01-29'' [task_a\<lparr>updated_at := ''2025-01-29T12:00:00''\<rparr>])])"
    by (simp add: push_tasks_def resolve_date_def DailyTasks_make_def validate_date_format_def
        Let_def push_row_def)
  show ?thesis
    by (simp add: update_task_def resolve_date_def pull_cached_a result_def [of True] v u p Let_def)
qed

theorem update_task_skips_unknown_keys_witness:
  "\<not> hasattr_Task env_a ''bogus'' \<and>
   apply_updates env_a [(''bogus'', VInt 1)] task_a = Done task_a \<and>
   success (fst (pull_tasks env_a (Some (resolve_date env_a (Some ''2025-01-29''))) True fs_a)) \<and>
   success (fst (push_tasks env_a [task_a\<lparr>updated_at := ''2025-01-29T12:00:00''\<rparr>]
     (Some (resolve_date env_a (Some ''2025-01-29''))) fs_a)) \<and>
   update_task env_a ''a'' [(''bogus'', VInt 1)] (Some ''2025-01-29'') fs_a =
     Done (result True (Pushed 1 ''2025-01-29'')
             (Some (push_row ''2025-01-29'' [task_a\<lparr>updated_at := ''2025-01-29T12:00:00''\<rparr>])) None,
           save_local_copy env_a
             (update_summary \<lparr>date = ''2025-01-29'',
                tasks = [task_a\<lparr>updated_at := ''2025-01-29T12:00:00''\<rparr>],
                summary = DaySummary_default\<rparr>) fs_a,
           [Upsert (push_row ''2025-01-29'' [task_a\<lparr>updated_at := ''2025-01-29T12:00:00''\<rparr>])])"
proof -
  have b: "\<not> hasattr_Task env_a ''bogus''"
    by (simp add: hasattr_Task_def field_names_def)
  then have h: "\<forall>(k, v) \<in> set [(''bogus'', VInt 1)]. \<not> hasattr_Task env_a k"
    by simp
  have r: "resolve_date env_a (Some ''2025-01-29'') = ''2025-01-29''"
    by (simp add: resolve_date_def)
  have 1: "success (fst (pull_tasks env_a (Some (resolve_date env_a (Some ''2025-01-29''))) True fs_a))"
    by (simp add: r pull_cached_a result_def)
  have 2: "success (fst (push_tasks env_a [task_a\<lparr>updated_at := ''2025-01-29T12:00:00''\<rparr>]
     (Some (resolve_date env_a (Some ''2025-01-29''))) fs_a))"
    by (simp add: r push_tasks_def resolve_date_def DailyTasks_make_def validate_date_format_def
        Let_def result_def)
  from update_task_skips_unknown_keys [of env_a "''a''" "[(''bogus'', VInt 1)]"
      "Some ''2025-01-29''" fs_a task_a] h update_task_run_a
  have 3: "apply_updates env_a [(''bogus'', VInt 1)] task_a = Done task_a"
    and 4: "update_task env_a ''a'' [(''bogus'', VInt 1)] (Some ''2025-01-29'') fs_a =
     Done (result True (Pushed 1 ''2025-01-29'')
             (Some (push_row ''2025-01-29'' [task_a\<lparr>updated_at := ''2025-01-29T12:00:00''\<rparr>])) None,
           save_local_copy env_a
             (update_summary \<lparr>date = ''2025-01-29'',
                tasks = [task_a\<lparr>updated_at := ''2025-01-29T12:00:00''\<rparr>],
                summary = DaySummary_default\<rparr>) fs_a,
           [Upsert (push_row ''2025-01-29'' [task_a\<lparr>updated_at := ''2025-01-29T12:00:00''\<rparr>])])"
    by simp_all
  from b 1 2 3 4 show ?thesis by blast
qed

end
